theory Spec2Isabelle
  imports Main "HOL-Library.Multiset" "HOL-Library.Product_Lexorder"
begin

section \<open>View configuration and dispatch of repoze.bfg (configuration.py)\<close>

text \<open>
  The development embeds the view machinery of \<^verbatim>\<open>repoze/bfg/configuration.py\<close>:
  the predicate compiler \<^verbatim>\<open>_make_predicates\<close>, the class \<^verbatim>\<open>MultiView\<close>, the wrapping
  layers of \<^verbatim>\<open>Configurator._derive_view\<close> and the registration procedure
  \<^verbatim>\<open>Configurator.add_view\<close>. Python names are kept; a leading underscore is dropped
  because an Isabelle identifier cannot start with one.
\<close>

subsection \<open>Python values\<close>

text \<open>Exceptions are values: every \<^verbatim>\<open>raise\<close> of the source is an \<open>Inl\<close> of the model.\<close>

datatype exn =
    NotFound string
  | Forbidden string
  | ConfigurationError string
  | ValueError string
  | KeyError string
  | TypeError string
  | AttributeError string
  | OtherException string

text \<open>
  What a view returns: a response object, of which the code only reads \<^verbatim>\<open>.body\<close>, or any
  other Python object (a dictionary for a renderer, say), which has no body.
\<close>

datatype pyval = Response string | PyObject string

text \<open>An interface, a class or (for backwards compatibility) a string given where one of them is expected.\<close>

datatype iface = Interface | IRequest | RouteRequestIface string | NamedIface string

datatype spec = Str string | Iface iface | Class string

text \<open>
  The request. \<^verbatim>\<open>params\<close> and \<^verbatim>\<open>headers\<close> are the lookup functions of webob's
  dictionaries (\<^verbatim>\<open>k in d\<close> is \<open>d k \<noteq> None\<close>, \<^verbatim>\<open>d.get(k)\<close> is \<open>d k\<close>); \<open>req_accept\<close> is
  \<open>None\<close> when the request object has no such attribute (\<^verbatim>\<open>hasattr\<close> is false). The
  attributes written by the wrapping layers are \<open>None\<close> until they are set. A reference to a
  view object (\<^verbatim>\<open>wrapped_view\<close>) is the address of that object. Field \<open>req_x\<close> is
  \<^verbatim>\<open>request.x\<close>.
\<close>

record accept_header =
  contains :: "string \<Rightarrow> bool"
  best_match :: "string list \<Rightarrow> string option"

record request =
  req_is_xhr :: bool
  req_method :: string
  req_path_info :: string
  req_params :: "string \<Rightarrow> string option"
  req_headers :: "string \<Rightarrow> string option"
  req_accept :: "accept_header option"
  req_wrapped_response :: "pyval option"
  req_wrapped_body :: "string option"
  req_wrapped_view :: "nat option"
  req_authdebug_message :: "string option"
  req_view_name :: "string option"
  req_url :: "string option"

text \<open>
  The state a view call can change: the request object it is given, and the lines written
  to the debug logger.
\<close>

record world =
  wreq :: request
  debug_log :: "string list"

type_synonym result = "(exn + pyval) \<times> world"

text \<open>
  A view object: a callable with the attributes the code reads and writes. \<open>addr\<close> is the
  identity of the object (\<^verbatim>\<open>is\<close> compares it, and Python 2 orders function objects by it);
  \<open>vname\<close> is \<open>None\<close> for an object without \<^verbatim>\<open>__name__\<close>; the four capabilities are
  \<open>None\<close> when the attribute is absent. \<^verbatim>\<open>__call_permissive__\<close> holds a callable, of which
  the code only uses the call.
\<close>

record 'c view =
  addr :: nat
  isclass :: bool
  vmodule :: string
  vdoc :: "string option"
  vname :: "string option"
  call :: "'c \<Rightarrow> world \<Rightarrow> result"
  permitted :: "('c \<Rightarrow> request \<Rightarrow> exn + bool) option"
  call_permissive :: "('c \<Rightarrow> world \<Rightarrow> result) option"
  predicated :: "('c \<Rightarrow> request \<Rightarrow> exn + bool) option"
  accept_tag :: "string option"

datatype map_shape =
    ClassRequestOnlyView | ClassView | RequestOnlyView | AttrView | RenderedView

text \<open>A renderer is what a registered renderer factory returns for a specification.\<close>

datatype renderer = Renderer string "string option"

text \<open>
  What the module takes from outside: \<^verbatim>\<open>sys.maxint\<close>, the \<^verbatim>\<open>re\<close> module
  (\<open>re_error p\<close> is the message of \<^verbatim>\<open>re.error\<close> when \<open>p\<close> does not compile, and a
  compiled pattern is the pattern), \<^verbatim>\<open>find_interface\<close> and \<^verbatim>\<open>render_view_to_response\<close>
  of sibling modules, Python's \<^verbatim>\<open>str\<close> and \<^verbatim>\<open>repr\<close>, the introspection of
  \<^verbatim>\<open>requestonly\<close>, the iteration order of a \<^verbatim>\<open>set\<close> of strings
  (\<open>list_of_set xs\<close> is \<^verbatim>\<open>list(set(xs))\<close>), \<^verbatim>\<open>os.path.splitext\<close>, the resolution of
  a resource specification against the package, and the bodies of the closures of
  \<^verbatim>\<open>_map_view\<close>, which instantiate user classes, call user attributes and render the
  result.
\<close>

record 'c pyenv =
  maxint :: int
  re_error :: "string \<Rightarrow> string option"
  re_match :: "string \<Rightarrow> string \<Rightarrow> bool"
  find_interface :: "'c \<Rightarrow> spec \<Rightarrow> 'c option"
  render_view_to_response :: "'c \<Rightarrow> world \<Rightarrow> string \<Rightarrow> (exn + pyval option) \<times> world"
  str_view :: "'c view \<Rightarrow> string"
  repr_view :: "'c view \<Rightarrow> string"
  repr_str :: "string \<Rightarrow> string"
  repr_context :: "'c \<Rightarrow> string"
  requestonly :: "'c view \<Rightarrow> string option \<Rightarrow> bool"
  list_of_set :: "string list \<Rightarrow> string list"
  splitext :: "string \<Rightarrow> string \<times> string"
  make_spec :: "string \<Rightarrow> string"
  mapped_call ::
    "map_shape \<Rightarrow> 'c view \<Rightarrow> string option \<Rightarrow> renderer option \<Rightarrow> string option
       \<Rightarrow> 'c \<Rightarrow> world \<Rightarrow> result"

subsection \<open>The predicate compiler\<close>

text \<open>
  The closures \<^verbatim>\<open>_make_predicates\<close> creates, each with the variables it captures.
  \<open>apply_predicate\<close> is the body of each closure.
\<close>

datatype predicate =
    xhr_predicate
  | request_method_predicate string
  | path_info_predicate string
  | request_param_predicate string "string option"
  | header_predicate string "string option"
  | accept_predicate string
  | containment_predicate spec

fun apply_predicate :: "'c pyenv \<Rightarrow> predicate \<Rightarrow> 'c \<Rightarrow> request \<Rightarrow> exn + bool" where
  "apply_predicate env xhr_predicate context request = Inr (req_is_xhr request)"
| "apply_predicate env (request_method_predicate request_method) context request =
     Inr (req_method request = request_method)"
| "apply_predicate env (path_info_predicate path_info_val) context request =
     Inr (re_match env path_info_val (req_path_info request))"
| "apply_predicate env (request_param_predicate request_param request_param_val) context request =
     (case request_param_val of
        None \<Rightarrow> Inr (req_params request request_param \<noteq> None)
      | Some v \<Rightarrow> Inr (req_params request request_param = Some v))"
| "apply_predicate env (header_predicate header_name header_val) context request =
     (case header_val of
        None \<Rightarrow> Inr (req_headers request header_name \<noteq> None)
      | Some pat \<Rightarrow>
          (case req_headers request header_name of
             None \<Rightarrow> Inl (TypeError ''expected string or buffer'')
           | Some val \<Rightarrow> Inr (re_match env pat val)))"
| "apply_predicate env (accept_predicate a) context request =
     (case req_accept request of
        None \<Rightarrow> Inl (AttributeError ''accept'')
      | Some acc \<Rightarrow> Inr (contains acc a))"
| "apply_predicate env (containment_predicate c) context request =
     Inr (find_interface env context c \<noteq> None)"

text \<open>\<^verbatim>\<open>s.split(c, 1)\<close> for a string that contains \<open>c\<close>.\<close>

definition split1 :: "char \<Rightarrow> string \<Rightarrow> string \<times> string" where
  "split1 c s = (takeWhile (\<lambda>x. x \<noteq> c) s, tl (dropWhile (\<lambda>x. x \<noteq> c) s))"

text \<open>
  \<^verbatim>\<open>_make_predicates\<close>: the seven blocks in source order, each subtracting its weight
  from \<^verbatim>\<open>weight\<close> and appending its closure; a pattern that does not compile raises
  \<^verbatim>\<open>ConfigurationError\<close>. \<^verbatim>\<open>if xhr:\<close> tests truth, the others test \<^verbatim>\<open>is not None\<close>.
  The division is Python 2's \<^verbatim>\<open>/\<close> on integers (floor), which is \<open>div\<close> on \<open>int\<close>.
\<close>

definition make_predicates ::
  "'c pyenv \<Rightarrow> bool \<Rightarrow> string option \<Rightarrow> string option \<Rightarrow> string option \<Rightarrow> string option
     \<Rightarrow> string option \<Rightarrow> spec option \<Rightarrow> exn + (int \<times> predicate list)" where
  "make_predicates env xhr request_method path_info request_param header accept containment =
    (let predicates = [];
         weight = maxint env;
         (weight, predicates) =
           (if xhr then (weight - 10, predicates @ [xhr_predicate]) else (weight, predicates));
         (weight, predicates) =
           (case request_method of
              Some m \<Rightarrow> (weight - 20, predicates @ [request_method_predicate m])
            | None \<Rightarrow> (weight, predicates))
     in case (case path_info of
                Some p \<Rightarrow>
                  (case re_error env p of
                     Some why \<Rightarrow> Inl (ConfigurationError why)
                   | None \<Rightarrow> Inr (weight - 30, predicates @ [path_info_predicate p]))
              | None \<Rightarrow> Inr (weight, predicates)) of
          Inl e \<Rightarrow> Inl e
        | Inr (weight, predicates) \<Rightarrow>
    (let (weight, predicates) =
           (case request_param of
              Some rp \<Rightarrow>
                (weight - 40,
                 predicates @
                   [if CHR ''='' \<in> set rp
                    then request_param_predicate (fst (split1 CHR ''='' rp))
                           (Some (snd (split1 CHR ''='' rp)))
                    else request_param_predicate rp None])
            | None \<Rightarrow> (weight, predicates))
     in case (case header of
                Some h \<Rightarrow>
                  (if CHR '':'' \<in> set h
                   then (case re_error env (snd (split1 CHR '':'' h)) of
                           Some why \<Rightarrow> Inl (ConfigurationError why)
                         | None \<Rightarrow>
                             Inr (weight - 50,
                                  predicates @
                                    [header_predicate (fst (split1 CHR '':'' h))
                                       (Some (snd (split1 CHR '':'' h)))]))
                   else Inr (weight - 50, predicates @ [header_predicate h None]))
              | None \<Rightarrow> Inr (weight, predicates)) of
          Inl e \<Rightarrow> Inl e
        | Inr (weight, predicates) \<Rightarrow>
    (let (weight, predicates) =
           (case accept of
              Some a \<Rightarrow> (weight - 60, predicates @ [accept_predicate a])
            | None \<Rightarrow> (weight, predicates));
         (weight, predicates) =
           (case containment of
              Some c \<Rightarrow> (weight - 70, predicates @ [containment_predicate c])
            | None \<Rightarrow> (weight, predicates));
         score = weight div (int (length predicates) + 1)
     in Inr (score, predicates))))"

text \<open>
  The fixed weight of each kind of predicate, as the specification lists them; the
  theorems below compare the scores of the code with it.
\<close>

fun fixed_weight :: "predicate \<Rightarrow> int" where
  "fixed_weight xhr_predicate = 10"
| "fixed_weight (request_method_predicate m) = 20"
| "fixed_weight (path_info_predicate p) = 30"
| "fixed_weight (request_param_predicate n v) = 40"
| "fixed_weight (header_predicate n v) = 50"
| "fixed_weight (accept_predicate a) = 60"
| "fixed_weight (containment_predicate c) = 70"

definition total_weight :: "predicate list \<Rightarrow> int" where
  "total_weight ps = sum_list (map fixed_weight ps)"

text \<open>
  The list the seven blocks append, in source order, when no pattern fails to compile.
\<close>

definition compiled ::
  "bool \<Rightarrow> string option \<Rightarrow> string option \<Rightarrow> string option \<Rightarrow> string option
     \<Rightarrow> string option \<Rightarrow> spec option \<Rightarrow> predicate list" where
  "compiled xhr request_method path_info request_param header accept containment =
     (if xhr then [xhr_predicate] else []) @
     (case request_method of Some m \<Rightarrow> [request_method_predicate m] | None \<Rightarrow> []) @
     (case path_info of Some p \<Rightarrow> [path_info_predicate p] | None \<Rightarrow> []) @
     (case request_param of
        Some rp \<Rightarrow>
          [if CHR ''='' \<in> set rp
           then request_param_predicate (fst (split1 CHR ''='' rp))
                  (Some (snd (split1 CHR ''='' rp)))
           else request_param_predicate rp None]
      | None \<Rightarrow> []) @
     (case header of
        Some h \<Rightarrow>
          [if CHR '':'' \<in> set h
           then header_predicate (fst (split1 CHR '':'' h)) (Some (snd (split1 CHR '':'' h)))
           else header_predicate h None]
      | None \<Rightarrow> []) @
     (case accept of Some a \<Rightarrow> [accept_predicate a] | None \<Rightarrow> []) @
     (case containment of Some c \<Rightarrow> [containment_predicate c] | None \<Rightarrow> [])"

subsection \<open>MultiView\<close>

type_synonym 'c pool = "(int \<times> 'c view) list"

record 'c multiview =
  mv_name :: string
  mv_media_views :: "string \<Rightarrow> 'c pool option"
  mv_views :: "'c pool"
  mv_accepts :: "string list"

definition MultiView :: "string \<Rightarrow> 'c multiview" where
  "MultiView n = \<lparr>mv_name = n, mv_media_views = Map.empty, mv_views = [], mv_accepts = []\<rparr>"

text \<open>
  \<^verbatim>\<open>list.sort()\<close> on a list of \<^verbatim>\<open>(score, view)\<close> tuples: tuples compare by score and,
  at equal scores, by the views, which Python 2 orders by address. The sort is stable.
\<close>

definition pool_sort :: "'c pool \<Rightarrow> 'c pool" where
  "pool_sort xs = sort_key (\<lambda>(score, view). (score, addr view)) xs"

definition add :: "'c pyenv \<Rightarrow> 'c multiview \<Rightarrow> 'c view \<Rightarrow> int \<Rightarrow> string option \<Rightarrow> 'c multiview" where
  "add env self view score accept =
     (if accept = None \<or> CHR ''*'' \<in> set (the accept)
      then self\<lparr>mv_views := pool_sort (mv_views self @ [(score, view)])\<rparr>
      else
        (let a = the accept;
             sub = (case mv_media_views self a of Some xs \<Rightarrow> xs | None \<Rightarrow> []);
             sub = pool_sort (sub @ [(score, view)])
         in self\<lparr>mv_media_views := (mv_media_views self)(a \<mapsto> sub),
                 mv_accepts := list_of_set env (mv_accepts self @ [a])\<rparr>))"

text \<open>
  The \<^verbatim>\<open>while accepts:\<close> loop of \<^verbatim>\<open>get_views\<close>. Each round removes one element of
  \<open>accepts\<close>, or stops: \<^verbatim>\<open>media_views[match]\<close> raises \<^verbatim>\<open>KeyError\<close> for an unknown key and
  \<^verbatim>\<open>accepts.remove(match)\<close> raises \<^verbatim>\<open>ValueError\<close> for an absent element.
\<close>

function get_views_loop ::
  "accept_header \<Rightarrow> (string \<Rightarrow> 'c pool option) \<Rightarrow> string list \<Rightarrow> 'c pool \<Rightarrow> exn + 'c pool" where
  "get_views_loop acc media_views accepts views =
     (if accepts = [] then Inr views
      else
        (case best_match acc accepts of
           None \<Rightarrow> Inr views
         | Some match \<Rightarrow>
             (case media_views match of
                None \<Rightarrow> Inl (KeyError match)
              | Some sub \<Rightarrow>
                  if match \<in> set accepts
                  then get_views_loop acc media_views (remove1 match accepts) (views @ sub)
                  else Inl (ValueError ''list.remove(x): x not in list''))))"
  by pat_completeness auto
termination
  by (relation "measure (\<lambda>(acc, media_views, accepts, views). length accepts)")
     (auto simp: length_remove1 intro: length_pos_if_in_set)

definition get_views :: "'c multiview \<Rightarrow> request \<Rightarrow> exn + 'c pool" where
  "get_views self request =
     (if mv_accepts self \<noteq> [] \<and> req_accept request \<noteq> None
      then
        (case get_views_loop (the (req_accept request)) (mv_media_views self) (mv_accepts self) [] of
           Inl e \<Rightarrow> Inl e
         | Inr vs \<Rightarrow> Inr (vs @ mv_views self))
      else Inr (mv_views self))"

fun match_loop :: "string \<Rightarrow> 'c \<Rightarrow> request \<Rightarrow> 'c pool \<Rightarrow> exn + 'c view" where
  "match_loop n context request [] = Inl (NotFound n)"
| "match_loop n context request ((score, view) # rest) =
     (case predicated view of
        None \<Rightarrow> Inr view
      | Some p \<Rightarrow>
          (case p context request of
             Inl e \<Rightarrow> Inl e
           | Inr True \<Rightarrow> Inr view
           | Inr False \<Rightarrow> match_loop n context request rest))"

definition match :: "'c multiview \<Rightarrow> 'c \<Rightarrow> request \<Rightarrow> exn + 'c view" where
  "match self context request =
     (case get_views self request of
        Inl e \<Rightarrow> Inl e
      | Inr vs \<Rightarrow> match_loop (mv_name self) context request vs)"

definition mv_permitted :: "'c multiview \<Rightarrow> 'c \<Rightarrow> request \<Rightarrow> exn + bool" where
  "mv_permitted self context request =
     (case match self context request of
        Inl e \<Rightarrow> Inl e
      | Inr view \<Rightarrow>
          (case permitted view of Some p \<Rightarrow> p context request | None \<Rightarrow> Inr True))"

definition mv_call_permissive :: "'c multiview \<Rightarrow> 'c \<Rightarrow> world \<Rightarrow> result" where
  "mv_call_permissive self context w =
     (case match self context (wreq w) of
        Inl e \<Rightarrow> (Inl e, w)
      | Inr view \<Rightarrow>
          (case call_permissive view of Some f \<Rightarrow> f context w | None \<Rightarrow> call view context w))"

text \<open>
  \<^verbatim>\<open>MultiView.__call__\<close>: the candidates are computed once; a candidate that raises
  \<^verbatim>\<open>NotFound\<close> is skipped, with whatever it did to the request kept.
\<close>

fun call_loop :: "string \<Rightarrow> 'c \<Rightarrow> 'c pool \<Rightarrow> world \<Rightarrow> result" where
  "call_loop n context [] w = (Inl (NotFound n), w)"
| "call_loop n context ((score, view) # rest) w =
     (case call view context w of
        (Inl (NotFound m), w') \<Rightarrow> call_loop n context rest w'
      | r \<Rightarrow> r)"

definition mv_call :: "'c multiview \<Rightarrow> 'c \<Rightarrow> world \<Rightarrow> result" where
  "mv_call self context w =
     (case get_views self (wreq w) of
        Inl e \<Rightarrow> (Inl e, w)
      | Inr vs \<Rightarrow> call_loop (mv_name self) context vs w)"

text \<open>
  The pool \<^verbatim>\<open>add\<close> chooses for an accept token, and the state reached by calling the
  views of a list in order while each raises \<^verbatim>\<open>NotFound\<close> (\<open>None\<close> when one does not).
\<close>

definition pool_of :: "'c multiview \<Rightarrow> string option \<Rightarrow> 'c pool" where
  "pool_of self accept =
     (if accept = None \<or> CHR ''*'' \<in> set (the accept) then mv_views self
      else (case mv_media_views self (the accept) of Some xs \<Rightarrow> xs | None \<Rightarrow> []))"

fun all_not_found :: "'c \<Rightarrow> 'c pool \<Rightarrow> world \<Rightarrow> world option" where
  "all_not_found context [] w = Some w"
| "all_not_found context ((score, view) # rest) w =
     (case call view context w of
        (Inl (NotFound m), w') \<Rightarrow> all_not_found context rest w'
      | r \<Rightarrow> None)"

subsection \<open>The wrapping layers of \<^verbatim>\<open>_derive_view\<close>\<close>

text \<open>
  The policies, with the contracts the code relies on: the principals of a request, and
  whether principals hold a permission on a context.
\<close>

record authentication_policy =
  effective_principals :: "request \<Rightarrow> string list"

record 'c authorization_policy =
  permits :: "'c \<Rightarrow> string list \<Rightarrow> string \<Rightarrow> bool"

text \<open>
  What a \<^verbatim>\<open>def\<close> inside this module creates: a function object at a fresh address,
  with its own name, no docstring and none of the four capabilities.
\<close>

definition function_object :: "nat \<Rightarrow> string \<Rightarrow> ('c \<Rightarrow> world \<Rightarrow> result) \<Rightarrow> 'c view" where
  "function_object a n f =
     \<lparr>addr = a, isclass = False, vmodule = ''repoze.bfg.configuration'', vdoc = None,
      vname = Some n, call = f, permitted = None, call_permissive = None, predicated = None,
      accept_tag = None\<rparr>"

text \<open>
  \<^verbatim>\<open>decorate_view\<close> mutates \<open>wrapped_view\<close>; the model returns the flag and the updated
  object. Each \<^verbatim>\<open>try\<close> block copies an attribute the original has and leaves the
  wrapper's own value otherwise; \<^verbatim>\<open>__module__\<close> and \<^verbatim>\<open>__doc__\<close>, which every object has,
  are copied outside a \<^verbatim>\<open>try\<close>.
\<close>

definition decorate_view :: "'c pyenv \<Rightarrow> 'c view \<Rightarrow> 'c view \<Rightarrow> bool \<times> 'c view" where
  "decorate_view env wrapped_view original_view =
     (if addr wrapped_view = addr original_view then (False, wrapped_view)
      else
        (True,
         wrapped_view
           \<lparr>vmodule := vmodule original_view,
            vdoc := vdoc original_view,
            vname :=
              Some (case vname original_view of
                      Some n \<Rightarrow> n
                    | None \<Rightarrow> repr_view env original_view),
            permitted :=
              (case permitted original_view of
                 Some p \<Rightarrow> Some p
               | None \<Rightarrow> permitted wrapped_view),
            call_permissive :=
              (case call_permissive original_view of
                 Some f \<Rightarrow> Some f
               | None \<Rightarrow> call_permissive wrapped_view),
            predicated :=
              (case predicated original_view of
                 Some p \<Rightarrow> Some p
               | None \<Rightarrow> predicated wrapped_view),
            accept_tag :=
              (case accept_tag original_view of
                 Some a \<Rightarrow> Some a
               | None \<Rightarrow> accept_tag wrapped_view)\<rparr>))"

text \<open>Truth of an optional string: \<^verbatim>\<open>None\<close> and \<^verbatim>\<open>''\<close> are false.\<close>

definition truthy :: "string option \<Rightarrow> bool" where
  "truthy x = (case x of None \<Rightarrow> False | Some s \<Rightarrow> s \<noteq> [])"

text \<open>\<^verbatim>\<open>'%s' % x\<close> and \<^verbatim>\<open>'%r' % x\<close> for an optional string.\<close>

definition str_opt :: "string option \<Rightarrow> string" where
  "str_opt x = (case x of None \<Rightarrow> ''None'' | Some s \<Rightarrow> s)"

definition repr_opt :: "'c pyenv \<Rightarrow> string option \<Rightarrow> string" where
  "repr_opt env x = (case x of None \<Rightarrow> ''None'' | Some s \<Rightarrow> repr_str env s)"

text \<open>
  \<^verbatim>\<open>_map_view\<close>: the five closures, chosen as in the source, then \<^verbatim>\<open>decorate_view\<close>,
  which does nothing when no closure was made. \<open>a\<close> is the address of the closure.
\<close>

definition map_view ::
  "'c pyenv \<Rightarrow> nat \<Rightarrow> 'c view \<Rightarrow> string option \<Rightarrow> renderer option \<Rightarrow> string option \<Rightarrow> 'c view" where
  "map_view env a view attr renderer renderer_name =
     (let wrapped_view =
            (if isclass view then
               (if requestonly env view attr
                then function_object a ''_bfg_class_requestonly_view''
                       (mapped_call env ClassRequestOnlyView view attr renderer renderer_name)
                else function_object a ''_bfg_class_view''
                       (mapped_call env ClassView view attr renderer renderer_name))
             else if requestonly env view attr
             then function_object a ''_bfg_requestonly_view''
                    (mapped_call env RequestOnlyView view attr renderer renderer_name)
             else if truthy attr
             then function_object a ''_bfg_attr_view''
                    (mapped_call env AttrView view attr renderer renderer_name)
             else if renderer \<noteq> None
             then function_object a ''_rendered_view''
                    (mapped_call env RenderedView view attr renderer renderer_name)
             else view)
      in snd (decorate_view env wrapped_view view))"

definition owrapped_view ::
  "'c pyenv \<Rightarrow> 'c view \<Rightarrow> string option \<Rightarrow> string \<Rightarrow> 'c \<Rightarrow> world \<Rightarrow> result" where
  "owrapped_view env view viewname wrapper_viewname context w =
     (case call view context w of
        (Inl e, w1) \<Rightarrow> (Inl e, w1)
      | (Inr response, w1) \<Rightarrow>
          (let w2 = w1\<lparr>wreq := (wreq w1)\<lparr>req_wrapped_response := Some response\<rparr>\<rparr>
           in case response of
                PyObject x \<Rightarrow> (Inl (AttributeError ''body''), w2)
              | Response b \<Rightarrow>
                  (let w3 = w2\<lparr>wreq := (wreq w2)\<lparr>req_wrapped_body := Some b,
                                                    req_wrapped_view := Some (addr view)\<rparr>\<rparr>
                   in case render_view_to_response env context w3 wrapper_viewname of
                        (Inl e, w4) \<Rightarrow> (Inl e, w4)
                      | (Inr None, w4) \<Rightarrow>
                          (Inl (ValueError
                                  (''No wrapper view named '' @ repr_str env wrapper_viewname @
                                   '' found when executing view named '' @
                                   repr_opt env viewname)),
                           w4)
                      | (Inr (Some wrapped_response), w4) \<Rightarrow> (Inr wrapped_response, w4))))"

definition owrap_view ::
  "'c pyenv \<Rightarrow> nat \<Rightarrow> 'c view \<Rightarrow> string option \<Rightarrow> string option \<Rightarrow> 'c view" where
  "owrap_view env a view viewname wrapper_viewname =
     (if \<not> truthy wrapper_viewname then view
      else snd (decorate_view env
                  (function_object a ''_owrapped_view''
                     (owrapped_view env view viewname (the wrapper_viewname)))
                  view))"

fun all_predicates :: "('c \<Rightarrow> request \<Rightarrow> exn + bool) list \<Rightarrow> 'c \<Rightarrow> request \<Rightarrow> exn + bool" where
  "all_predicates [] context request = Inr True"
| "all_predicates (predicate # predicates) context request =
     (case predicate context request of
        Inl e \<Rightarrow> Inl e
      | Inr True \<Rightarrow> all_predicates predicates context request
      | Inr False \<Rightarrow> Inr False)"

definition predicate_wrapper ::
  "'c pyenv \<Rightarrow> 'c view \<Rightarrow> ('c \<Rightarrow> request \<Rightarrow> exn + bool) list \<Rightarrow> 'c \<Rightarrow> world \<Rightarrow> result" where
  "predicate_wrapper env view predicates context w =
     (case all_predicates predicates context (wreq w) of
        Inl e \<Rightarrow> (Inl e, w)
      | Inr True \<Rightarrow> call view context w
      | Inr False \<Rightarrow>
          (Inl (NotFound (''predicate mismatch for view '' @ str_view env view)), w))"

definition predicate_wrap ::
  "'c pyenv \<Rightarrow> nat \<Rightarrow> 'c view \<Rightarrow> ('c \<Rightarrow> request \<Rightarrow> exn + bool) list \<Rightarrow> 'c view" where
  "predicate_wrap env a view predicates =
     (if predicates = [] then view
      else snd (decorate_view env
                  ((function_object a ''predicate_wrapper'' (predicate_wrapper env view predicates))
                     \<lparr>predicated := Some (all_predicates predicates)\<rparr>)
                  view))"

definition secured_view ::
  "'c pyenv \<Rightarrow> 'c view \<Rightarrow> string \<Rightarrow> authentication_policy \<Rightarrow> 'c authorization_policy
     \<Rightarrow> 'c \<Rightarrow> world \<Rightarrow> result" where
  "secured_view env view permission authn_policy authz_policy context w =
     (let principals = effective_principals authn_policy (wreq w)
      in if permits authz_policy context principals permission then call view context w
         else
           (let msg = (case req_authdebug_message (wreq w) of
                         Some m \<Rightarrow> m
                       | None \<Rightarrow>
                           ''Unauthorized: '' @ str_view env view @ '' failed permission check'')
            in (Inl (Forbidden msg), w)))"

definition permitted_check ::
  "string \<Rightarrow> authentication_policy \<Rightarrow> 'c authorization_policy \<Rightarrow> 'c \<Rightarrow> request \<Rightarrow> exn + bool" where
  "permitted_check permission authn_policy authz_policy context request =
     (let principals = effective_principals authn_policy request
      in Inr (permits authz_policy context principals permission))"

definition secure_view ::
  "'c pyenv \<Rightarrow> nat \<Rightarrow> 'c view \<Rightarrow> string option \<Rightarrow> authentication_policy option
     \<Rightarrow> 'c authorization_policy option \<Rightarrow> 'c view" where
  "secure_view env a view permission authn_policy authz_policy =
     (if authn_policy \<noteq> None \<and> authz_policy \<noteq> None \<and> permission \<noteq> None
      then
        snd (decorate_view env
               ((function_object a ''_secured_view''
                   (secured_view env view (the permission) (the authn_policy) (the authz_policy)))
                  \<lparr>call_permissive := Some (call view),
                   permitted :=
                     Some (permitted_check (the permission) (the authn_policy)
                             (the authz_policy))\<rparr>)
               view)
      else view)"

definition debug_authorization :: "(string \<Rightarrow> bool option) option \<Rightarrow> bool" where
  "debug_authorization settings =
     (case settings of
        None \<Rightarrow> False
      | Some s \<Rightarrow> (case s ''debug_authorization'' of Some b \<Rightarrow> b | None \<Rightarrow> False))"

definition authdebug_call ::
  "'c pyenv \<Rightarrow> 'c view \<Rightarrow> string option \<Rightarrow> authentication_policy option
     \<Rightarrow> 'c authorization_policy option \<Rightarrow> bool \<Rightarrow> 'c \<Rightarrow> world \<Rightarrow> result" where
  "authdebug_call env view permission authn_policy authz_policy logger context w =
     (let request = wreq w;
          msg =
            (if authn_policy \<noteq> None \<and> authz_policy \<noteq> None
             then
               (case permission of
                  None \<Rightarrow> ''Allowed (no permission registered)''
                | Some p \<Rightarrow>
                    (let principals = effective_principals (the authn_policy) request
                     in if permits (the authz_policy) context principals p then ''True''
                        else ''False''))
             else ''Allowed (no authorization policy in use)'');
          msg =
            ''debug_authorization of url '' @ str_opt (req_url request) @ '' (view name '' @
            repr_opt env (req_view_name request) @ '' against context '' @ repr_context env context @
            ''): '' @ msg;
          w1 = (if logger then w\<lparr>debug_log := debug_log w @ [msg]\<rparr> else w);
          w2 = w1\<lparr>wreq := (wreq w1)\<lparr>req_authdebug_message := Some msg\<rparr>\<rparr>
      in call view context w2)"

definition authdebug_view ::
  "'c pyenv \<Rightarrow> nat \<Rightarrow> 'c view \<Rightarrow> string option \<Rightarrow> authentication_policy option
     \<Rightarrow> 'c authorization_policy option \<Rightarrow> (string \<Rightarrow> bool option) option \<Rightarrow> bool \<Rightarrow> 'c view" where
  "authdebug_view env a view permission authn_policy authz_policy settings logger =
     (if debug_authorization settings
      then snd (decorate_view env
                  (function_object a ''_authdebug_view''
                     (authdebug_call env view permission authn_policy authz_policy logger))
                  view)
      else view)"


text \<open>\<^verbatim>\<open>_accept_wrap\<close> makes its closure and sets \<^verbatim>\<open>__accept__\<close>; it does not call \<^verbatim>\<open>decorate_view\<close>.\<close>

definition accept_wrap :: "nat \<Rightarrow> 'c view \<Rightarrow> string option \<Rightarrow> 'c view" where
  "accept_wrap a view accept =
     (case accept of
        None \<Rightarrow> view
      | Some acc \<Rightarrow>
          (function_object a ''accept_view'' (\<lambda>context w. call view context w))
            \<lparr>accept_tag := Some acc\<rparr>)"

subsection \<open>The registry\<close>

datatype provided = IView | ISecuredView | IMultiView

datatype required = Provides iface | ImplementedBy string

datatype 'c adapter = SingleView "'c view" | MultiViewObject "'c multiview"

text \<open>
  Modelled from the spec: the component registry (\<^verbatim>\<open>repoze.bfg.registry\<close>, built on
  \<^verbatim>\<open>zope.component\<close>), which the source file imports. It is a store from (resource type,
  request type, provided interface, name) to the registered object, with "register",
  "unregister" and "lookup" for the triple; the polymorphic resolution of a lookup is left
  to the registry and is not modelled. A lookup for \<^verbatim>\<open>IView\<close> finds an object registered
  as \<^verbatim>\<open>IView\<close>, \<^verbatim>\<open>ISecuredView\<close> or \<^verbatim>\<open>IMultiView\<close>, since the latter two extend the first.
  The utilities are the ones \<^verbatim>\<open>queryUtility\<close> is asked for.
\<close>

record 'c registry =
  adapters :: "(required \<times> required) \<times> provided \<times> string \<Rightarrow> 'c adapter option"
  utility_authn :: "authentication_policy option"
  utility_authz :: "'c authorization_policy option"
  utility_settings :: "(string \<Rightarrow> bool option) option"
  utility_logger :: bool
  renderer_factories :: "string \<Rightarrow> string option"
  route_requests :: "string \<Rightarrow> iface option"

definition lookup_view :: "'c registry \<Rightarrow> required \<times> required \<Rightarrow> string \<Rightarrow> 'c adapter option" where
  "lookup_view reg key n =
     (case adapters reg (key, IView, n) of
        Some x \<Rightarrow> Some x
      | None \<Rightarrow>
          (case adapters reg (key, ISecuredView, n) of
             Some x \<Rightarrow> Some x
           | None \<Rightarrow> adapters reg (key, IMultiView, n)))"

definition registerAdapter ::
  "'c registry \<Rightarrow> 'c adapter \<Rightarrow> required \<times> required \<Rightarrow> provided \<Rightarrow> string \<Rightarrow> 'c registry" where
  "registerAdapter reg x key i n = reg\<lparr>adapters := (adapters reg)((key, i, n) \<mapsto> x)\<rparr>"

definition unregister ::
  "'c registry \<Rightarrow> required \<times> required \<Rightarrow> provided \<Rightarrow> string \<Rightarrow> 'c registry" where
  "unregister reg key i n = reg\<lparr>adapters := (adapters reg)((key, i, n) := None)\<rparr>"

text \<open>
  \<^verbatim>\<open>if not IInterface.providedBy(x): x = implementedBy(x)\<close>: an interface stays, a class
  becomes its specification, and \<^verbatim>\<open>implementedBy\<close> raises \<^verbatim>\<open>TypeError\<close> for a string.
\<close>

definition required_of :: "spec \<Rightarrow> exn + required" where
  "required_of x =
     (case x of
        Iface i \<Rightarrow> Inr (Provides i)
      | Class c \<Rightarrow> Inr (ImplementedBy c)
      | Str s \<Rightarrow> Inl (TypeError ''ImplementedBy called for non-factory''))"

subsection \<open>\<^verbatim>\<open>Configurator._derive_view\<close> and \<^verbatim>\<open>Configurator.add_view\<close>\<close>

text \<open>The addresses at which the function objects created by one call are allocated.\<close>

record closure_addrs =
  a_default :: nat
  a_map :: nat
  a_owrap :: nat
  a_secure :: nat
  a_debug :: nat
  a_pred :: nat
  a_accept :: nat

definition renderer_from_name :: "'c pyenv \<Rightarrow> 'c registry \<Rightarrow> string option \<Rightarrow> exn + renderer option" where
  "renderer_from_name env reg path_or_spec =
     (case path_or_spec of
        None \<Rightarrow>
          (case renderer_factories reg [] of
             Some factory \<Rightarrow> Inr (Some (Renderer factory None))
           | None \<Rightarrow> Inr None)
      | Some p \<Rightarrow>
          (let (n, spec) =
                 (if CHR ''.'' \<in> set p then (snd (splitext env p), make_spec env p) else (p, p))
           in case renderer_factories reg n of
                None \<Rightarrow> Inl (ValueError (''No renderer for renderer name '' @ repr_str env n))
              | Some factory \<Rightarrow> Inr (Some (Renderer factory (Some spec)))))"

definition derive_view ::
  "'c pyenv \<Rightarrow> 'c registry \<Rightarrow> closure_addrs \<Rightarrow> 'c view \<Rightarrow> string option
     \<Rightarrow> ('c \<Rightarrow> request \<Rightarrow> exn + bool) list \<Rightarrow> string option \<Rightarrow> string option \<Rightarrow> string option
     \<Rightarrow> string option \<Rightarrow> string option \<Rightarrow> exn + 'c view" where
  "derive_view env reg al view permission predicates attr renderer_name wrapper_viewname
       viewname accept =
     (case renderer_from_name env reg renderer_name of
        Inl e \<Rightarrow> Inl e
      | Inr renderer \<Rightarrow>
          (let authn_policy = utility_authn reg;
               authz_policy = utility_authz reg;
               settings = utility_settings reg;
               logger = utility_logger reg;
               mapped_view = map_view env (a_map al) view attr renderer renderer_name;
               owrapped_view = owrap_view env (a_owrap al) mapped_view viewname wrapper_viewname;
               secured_view =
                 secure_view env (a_secure al) owrapped_view permission authn_policy authz_policy;
               debug_view =
                 authdebug_view env (a_debug al) secured_view permission authn_policy authz_policy
                   settings logger;
               predicated_view = predicate_wrap env (a_pred al) debug_view predicates;
               derived_view = accept_wrap (a_accept al) predicated_view accept
           in Inr derived_view))"

record 'c view_args =
  arg_view :: "'c view option"
  arg_name :: string
  arg_for :: "spec option"
  arg_permission :: "string option"
  arg_request_type :: "spec option"
  arg_route_name :: "string option"
  arg_request_method :: "string option"
  arg_request_param :: "string option"
  arg_containment :: "spec option"
  arg_attr :: "string option"
  arg_renderer :: "string option"
  arg_wrapper :: "string option"
  arg_xhr :: bool
  arg_accept :: "string option"
  arg_header :: "string option"
  arg_path_info :: "string option"

text \<open>
  The first steps of \<^verbatim>\<open>add_view\<close>: the default view, the \<^verbatim>\<open>request_type\<close> given as
  an HTTP method (1.0 compatibility), the conflict check, and the request type of a route,
  registered on first use.
\<close>

definition view_or_default :: "closure_addrs \<Rightarrow> 'c view_args \<Rightarrow> exn + 'c view" where
  \<open>view_or_default al args =
     (case arg_view args of
        Some view \<Rightarrow> Inr view
      | None \<Rightarrow>
          if truthy (arg_renderer args)
          then Inr (function_object (a_default al) ''view'' (\<lambda>context w. (Inr (PyObject ''{}''), w)))
          else Inl (ConfigurationError
                      ''"view" was not specified and no "renderer" specified''))\<close>

definition method_and_type :: "'c view_args \<Rightarrow> string option \<times> spec option" where
  "method_and_type args =
     (case arg_request_type args of
        Some (Str s) \<Rightarrow>
          if s \<in> set [''GET'', ''HEAD'', ''PUT'', ''POST'', ''DELETE'']
          then (Some s, None)
          else (arg_request_method args, arg_request_type args)
      | _ \<Rightarrow> (arg_request_method args, arg_request_type args))"

definition spec_truthy :: "spec option \<Rightarrow> bool" where
  "spec_truthy x = (case x of None \<Rightarrow> False | Some (Str s) \<Rightarrow> s \<noteq> [] | Some _ \<Rightarrow> True)"

definition route_request_type ::
  "'c registry \<Rightarrow> spec option \<Rightarrow> string option \<Rightarrow> spec \<times> 'c registry" where
  "route_request_type reg request_type route_name =
     (let request_type = (case request_type of None \<Rightarrow> Iface IRequest | Some t \<Rightarrow> t)
      in case route_name of
           None \<Rightarrow> (request_type, reg)
         | Some rn \<Rightarrow>
             (case route_requests reg rn of
                Some i \<Rightarrow> (Iface i, reg)
              | None \<Rightarrow>
                  (Iface (RouteRequestIface rn),
                   reg\<lparr>route_requests := (route_requests reg)(rn \<mapsto> RouteRequestIface rn)\<rparr>)))"

text \<open>
  The registration step of \<^verbatim>\<open>add_view\<close>, from the lookup of \<open>old_view\<close> on.
\<close>

definition register_view ::
  "'c pyenv \<Rightarrow> 'c registry \<Rightarrow> required \<times> required \<Rightarrow> string \<Rightarrow> 'c view \<Rightarrow> int \<Rightarrow> string option
     \<Rightarrow> 'c registry" where
  "register_view env reg key n derived_view score accept =
     (case lookup_view reg key n of
        None \<Rightarrow>
          (let view_iface = (if call_permissive derived_view \<noteq> None then ISecuredView else IView)
           in registerAdapter reg (SingleView derived_view) key view_iface n)
      | Some old_view \<Rightarrow>
          (let multiview =
                 (case old_view of
                    MultiViewObject m \<Rightarrow> m
                  | SingleView v \<Rightarrow> add env (MultiView n) v (maxint env) (accept_tag v));
               multiview = add env multiview derived_view score accept;
               reg = unregister reg key IView n;
               reg = unregister reg key ISecuredView n
           in registerAdapter reg (MultiViewObject multiview) key IMultiView n))"

definition add_view ::
  "'c pyenv \<Rightarrow> 'c registry \<Rightarrow> closure_addrs \<Rightarrow> 'c view_args \<Rightarrow> exn + 'c registry" where
  "add_view env reg al args =
     (case view_or_default al args of
        Inl e \<Rightarrow> Inl e
      | Inr view \<Rightarrow>
     (let (request_method, request_type) = method_and_type args
      in if spec_truthy request_type \<and> truthy (arg_route_name args)
         then Inl (ConfigurationError
                     (''A view cannot be configured with both the request_type and '' @
                      ''route_name parameters: these two features when used together '' @
                      ''causes an internal conflict.''))
         else
     (let (request_type, reg) = route_request_type reg request_type (arg_route_name args)
      in case make_predicates env (arg_xhr args) request_method (arg_path_info args)
                (arg_request_param args) (arg_header args) (arg_accept args)
                (arg_containment args) of
           Inl e \<Rightarrow> Inl e
         | Inr (score, predicates) \<Rightarrow>
     (case derive_view env reg al view (arg_permission args)
             (map (apply_predicate env) predicates) (arg_attr args) (arg_renderer args)
             (arg_wrapper args) (Some (arg_name args)) (arg_accept args) of
        Inl e \<Rightarrow> Inl e
      | Inr derived_view \<Rightarrow>
     (case required_of (case arg_for args of None \<Rightarrow> Iface Interface | Some f \<Rightarrow> f) of
        Inl e \<Rightarrow> Inl e
      | Inr r_for \<Rightarrow>
     (case required_of request_type of
        Inl e \<Rightarrow> Inl e
      | Inr r_request_type \<Rightarrow>
          Inr (register_view env reg (r_for, r_request_type) (arg_name args) derived_view score
                 (arg_accept args))))))))"

text \<open>
  Two names for what \<^verbatim>\<open>add_view\<close> computes on the way: the registry key
  \<^verbatim>\<open>(r_for_, r_request_type)\<close>, and the score with the derived view.
\<close>

definition view_key :: "'c registry \<Rightarrow> 'c view_args \<Rightarrow> exn + (required \<times> required)" where
  "view_key reg args =
     (let (request_method, request_type) = method_and_type args;
          (request_type, reg1) = route_request_type reg request_type (arg_route_name args)
      in case required_of (case arg_for args of None \<Rightarrow> Iface Interface | Some f \<Rightarrow> f) of
           Inl e \<Rightarrow> Inl e
         | Inr r_for \<Rightarrow>
             (case required_of request_type of
                Inl e \<Rightarrow> Inl e
              | Inr r_request_type \<Rightarrow> Inr (r_for, r_request_type)))"

definition scored_view ::
  "'c pyenv \<Rightarrow> 'c registry \<Rightarrow> closure_addrs \<Rightarrow> 'c view_args \<Rightarrow> exn + (int \<times> 'c view)" where
  "scored_view env reg al args =
     (case view_or_default al args of
        Inl e \<Rightarrow> Inl e
      | Inr view \<Rightarrow>
          (let (request_method, request_type) = method_and_type args;
               (request_type, reg1) = route_request_type reg request_type (arg_route_name args)
           in case make_predicates env (arg_xhr args) request_method (arg_path_info args)
                     (arg_request_param args) (arg_header args) (arg_accept args)
                     (arg_containment args) of
                Inl e \<Rightarrow> Inl e
              | Inr (score, predicates) \<Rightarrow>
                  (case derive_view env reg1 al view (arg_permission args)
                          (map (apply_predicate env) predicates) (arg_attr args)
                          (arg_renderer args) (arg_wrapper args) (Some (arg_name args))
                          (arg_accept args) of
                     Inl e \<Rightarrow> Inl e
                   | Inr derived_view \<Rightarrow> Inr (score, derived_view))))"

subsection \<open>Concrete inputs\<close>

text \<open>
  A 64-bit Python 2 whose \<^verbatim>\<open>re\<close> rejects the pattern \<^verbatim>\<open>(\<close>, a wrapper view
  \<^verbatim>\<open>layout\<close> that frames the wrapped body, and views that are plain functions.
\<close>

definition ex_env :: "nat pyenv" where
  "ex_env =
     \<lparr>maxint = 9223372036854775807,
      re_error = (\<lambda>p. if p = ''('' then Some ''unbalanced parenthesis'' else None),
      re_match = (\<lambda>p s. p = s),
      find_interface = (\<lambda>c i. None),
      render_view_to_response =
        (\<lambda>c w n.
           if n = ''layout''
           then (Inr (Some (Response
                              (''<html>'' @ str_opt (req_wrapped_body (wreq w)) @ ''</html>''))),
                 w)
           else (Inr None, w)),
      str_view = (\<lambda>v. ''<function '' @ str_opt (vname v) @ ''>''),
      repr_view = (\<lambda>v. ''<function '' @ str_opt (vname v) @ ''>''),
      repr_str = (\<lambda>s. ''<'' @ s @ ''>''),
      repr_context = (\<lambda>c. ''<context>''),
      requestonly = (\<lambda>v a. False),
      list_of_set = remdups,
      splitext = (\<lambda>p. (p, [])),
      make_spec = (\<lambda>p. p),
      mapped_call = (\<lambda>shape v attr renderer renderer_name. call v)\<rparr>"

definition ex_view :: "nat \<Rightarrow> string \<Rightarrow> nat view" where
  "ex_view a b =
     \<lparr>addr = a, isclass = False, vmodule = ''app.views'', vdoc = None, vname = Some ''hello'',
      call = (\<lambda>context w. (Inr (Response b), w)), permitted = None, call_permissive = None,
      predicated = None, accept_tag = None\<rparr>"

definition ex_request :: request where
  "ex_request =
     \<lparr>req_is_xhr = False, req_method = ''POST'', req_path_info = ''/'', req_params = Map.empty,
      req_headers = Map.empty, req_accept = None, req_wrapped_response = None,
      req_wrapped_body = None, req_wrapped_view = None, req_authdebug_message = None,
      req_view_name = None, req_url = None\<rparr>"

definition ex_world :: world where
  "ex_world = \<lparr>wreq = ex_request, debug_log = []\<rparr>"

definition ex_get_view :: "nat view" where
  "ex_get_view =
     predicate_wrap ex_env 2 (ex_view 1 ''get'')
       [apply_predicate ex_env (request_method_predicate ''GET'')]"

definition ex_multiview :: "nat multiview" where
  "ex_multiview =
     add ex_env (add ex_env (MultiView []) (ex_view 3 ''any'') (maxint ex_env) None)
       ex_get_view 4611686018427387893 None"

definition ex_get_only :: "nat multiview" where
  "ex_get_only = add ex_env (MultiView []) ex_get_view 4611686018427387893 None"

definition ex_authn :: authentication_policy where
  "ex_authn = \<lparr>effective_principals = (\<lambda>request. [''system.Everyone''])\<rparr>"

definition ex_authz :: "nat authorization_policy" where
  "ex_authz =
     \<lparr>permits = (\<lambda>context principals permission.
                   context = 0 \<and> permission = ''view'' \<and> ''system.Everyone'' \<in> set principals)\<rparr>"

definition ex_registry :: "nat registry" where
  "ex_registry =
     \<lparr>adapters = Map.empty, utility_authn = None, utility_authz = None, utility_settings = None,
      utility_logger = False, renderer_factories = Map.empty, route_requests = Map.empty\<rparr>"

definition ex_secure_registry :: "nat registry" where
  "ex_secure_registry = ex_registry\<lparr>utility_authn := Some ex_authn, utility_authz := Some ex_authz\<rparr>"


definition ex_addrs :: closure_addrs where
  "ex_addrs =
     \<lparr>a_default = 100, a_map = 101, a_owrap = 102, a_secure = 103, a_debug = 104, a_pred = 105,
      a_accept = 106\<rparr>"

definition ex_key :: "required \<times> required" where
  "ex_key = (Provides Interface, Provides IRequest)"

definition ex_args_get :: "nat view_args" where
  "ex_args_get =
     \<lparr>arg_view = Some (ex_view 1 ''get''), arg_name = [], arg_for = None, arg_permission = None,
      arg_request_type = None, arg_route_name = None, arg_request_method = Some ''GET'',
      arg_request_param = None, arg_containment = None, arg_attr = None, arg_renderer = None,
      arg_wrapper = None, arg_xhr = False, arg_accept = None, arg_header = None,
      arg_path_info = None\<rparr>"

definition ex_addrs2 :: closure_addrs where
  "ex_addrs2 =
     \<lparr>a_default = 110, a_map = 111, a_owrap = 112, a_secure = 113, a_debug = 114, a_pred = 115,
      a_accept = 116\<rparr>"

definition ex_derived_get :: "nat view" where
  "ex_derived_get =
     predicate_wrap ex_env (a_pred ex_addrs) (ex_view 1 ''get'')
       [apply_predicate ex_env (request_method_predicate ''GET'')]"

definition ex_registry1 :: "nat registry" where
  "ex_registry1 = registerAdapter ex_registry (SingleView ex_derived_get) ex_key IView []"

text \<open>
  Two registrations under one triple: view A requires an XHR request and the method GET,
  view B only the method GET.
\<close>

definition ex_args_a :: "nat view_args" where
  "ex_args_a = ex_args_get\<lparr>arg_view := Some (ex_view 1 ''xhr-get''), arg_xhr := True\<rparr>"

definition ex_args_b :: "nat view_args" where
  "ex_args_b = ex_args_get\<lparr>arg_view := Some (ex_view 2 ''get'')\<rparr>"

definition ex_view_a :: "nat view" where
  "ex_view_a =
     predicate_wrap ex_env (a_pred ex_addrs) (ex_view 1 ''xhr-get'')
       [apply_predicate ex_env xhr_predicate,
        apply_predicate ex_env (request_method_predicate ''GET'')]"

definition ex_view_b :: "nat view" where
  "ex_view_b =
     predicate_wrap ex_env (a_pred ex_addrs2) (ex_view 2 ''get'')
       [apply_predicate ex_env (request_method_predicate ''GET'')]"

definition ex_registry_a :: "nat registry" where
  "ex_registry_a = registerAdapter ex_registry (SingleView ex_view_a) ex_key IView []"

definition ex_multiview_ab :: "nat multiview" where
  "ex_multiview_ab =
     add ex_env (add ex_env (MultiView []) ex_view_a (maxint ex_env) (accept_tag ex_view_a))
       ex_view_b 4611686018427387893 None"

definition ex_registry_ab :: "nat registry" where
  "ex_registry_ab =
     registerAdapter
       (unregister (unregister ex_registry_a ex_key IView []) ex_key ISecuredView [])
       (MultiViewObject ex_multiview_ab) ex_key IMultiView []"

definition ex_registry_b :: "nat registry" where
  "ex_registry_b = registerAdapter ex_registry (SingleView ex_view_b) ex_key IView []"

definition ex_multiview_ba :: "nat multiview" where
  "ex_multiview_ba =
     add ex_env (add ex_env (MultiView []) ex_view_b (maxint ex_env) (accept_tag ex_view_b))
       ex_view_a 3074457345618258592 None"

definition ex_registry_ba :: "nat registry" where
  "ex_registry_ba =
     registerAdapter
       (unregister (unregister ex_registry_b ex_key IView []) ex_key ISecuredView [])
       (MultiViewObject ex_multiview_ba) ex_key IMultiView []"

definition ex_xhr_get :: request where
  "ex_xhr_get = ex_request\<lparr>req_is_xhr := True, req_method := ''GET''\<rparr>"

section \<open>Properties\<close>

subsection \<open>Scores of the predicate compiler\<close>

lemma make_predicates_eq:
  "make_predicates env xhr request_method path_info request_param header accept containment =
     (case (case path_info of Some p \<Rightarrow> re_error env p | None \<Rightarrow> None) of
        Some why \<Rightarrow> Inl (ConfigurationError why)
      | None \<Rightarrow>
       (case (case header of
                Some h \<Rightarrow> if CHR '':'' \<in> set h then re_error env (snd (split1 CHR '':'' h)) else None
              | None \<Rightarrow> None) of
          Some why \<Rightarrow> Inl (ConfigurationError why)
        | None \<Rightarrow>
            Inr ((maxint env
                    - total_weight (compiled xhr request_method path_info request_param header accept containment))
                   div (int (length (compiled xhr request_method path_info request_param header accept containment)) + 1),
                 compiled xhr request_method path_info request_param header accept containment)))"
  by (simp add: make_predicates_def total_weight_def compiled_def split: option.split)

lemma make_predicates_Inr:
  assumes "make_predicates env xhr request_method path_info request_param header accept containment
             = Inr (score, predicates)"
  shows "predicates = compiled xhr request_method path_info request_param header accept containment"
    and "score = (maxint env - total_weight predicates) div (int (length predicates) + 1)"
  using assms by (auto simp add: make_predicates_eq split: option.splits)

lemma total_weight_append: "total_weight (xs @ ys) = total_weight xs + total_weight ys"
  by (simp add: total_weight_def)

lemma total_weight_compiled:
  "total_weight (compiled xhr request_method path_info request_param header accept containment) =
     (if xhr then 10 else 0) + (if request_method = None then 0 else 20) +
     (if path_info = None then 0 else 30) + (if request_param = None then 0 else 40) +
     (if header = None then 0 else 50) + (if accept = None then 0 else 60) +
     (if containment = None then 0 else 70)"
  unfolding compiled_def total_weight_append
  by (simp add: total_weight_def split: option.split)

lemma length_compiled:
  "length (compiled xhr request_method path_info request_param header accept containment) =
     (if xhr then 1 else 0) + (if request_method = None then 0 else 1) +
     (if path_info = None then 0 else 1) + (if request_param = None then 0 else 1) +
     (if header = None then 0 else 1) + (if accept = None then 0 else 1) +
     (if containment = None then 0 else 1)"
  unfolding compiled_def
  by (simp split: option.split)

lemma compiled_bounds:
  "length (compiled xhr request_method path_info request_param header accept containment) \<le> 7"
  "0 \<le> total_weight (compiled xhr request_method path_info request_param header accept containment)"
  "total_weight (compiled xhr request_method path_info request_param header accept containment) \<le> 280"
  "10 dvd total_weight (compiled xhr request_method path_info request_param header accept containment)"
  unfolding total_weight_compiled length_compiled by simp_all

lemma div_gap:
  fixes M :: int
  assumes M: "2147483647 \<le> M" and n: "n2 \<le> (6::nat)"
  shows "M div (int n2 + 2) < (M - 280) div (int n2 + 1)"
proof -
  from n consider "n2 = 0" | "n2 = 1" | "n2 = 2" | "n2 = 3" | "n2 = 4" | "n2 = 5" | "n2 = 6"
    by linarith
  then show ?thesis
    using M by cases simp_all
qed

lemma score_more:
  fixes M :: int
  assumes M: "2147483647 \<le> M" and w1: "0 \<le> w1" and w2: "w2 \<le> 280"
    and n: "n2 < n1" and n1: "n1 \<le> 7"
  shows "(M - w1) div (int n1 + 1) < (M - w2) div (int n2 + 1)"
proof -
  have "(M - w1) div (int n1 + 1) \<le> M div (int n1 + 1)"
    using w1 by (intro zdiv_mono1) auto
  also have "\<dots> \<le> M div (int n2 + 2)"
    using M n by (intro zdiv_mono2) auto
  also have "\<dots> < (M - 280) div (int n2 + 1)"
    using M n n1 by (intro div_gap) auto
  also have "\<dots> \<le> (M - w2) div (int n2 + 1)"
    using w2 by (intro zdiv_mono1) auto
  finally show ?thesis .
qed

lemma score_heavier:
  fixes M :: int
  assumes d1: "10 dvd w1" and d2: "10 dvd w2" and lt: "w2 < w1" and n: "n \<le> 7"
  shows "(M - w1) div (int n + 1) < (M - w2) div (int n + 1)"
proof -
  have "w2 + 10 \<le> w1" using d1 d2 lt by presburger
  then have "M - w1 \<le> (M - w2) - (int n + 1)" using n by simp
  then have "(M - w1) div (int n + 1) \<le> ((M - w2) - (int n + 1)) div (int n + 1)"
    by (intro zdiv_mono1) auto
  also have "\<dots> + 1 = (((M - w2) - (int n + 1)) + (int n + 1)) div (int n + 1)"
    by (subst div_add_self2) auto
  finally show ?thesis by simp
qed

text \<open>
  Claim C3. When no predicate option is supplied, \<^verbatim>\<open>_make_predicates\<close> returns the
  sentinel \<^verbatim>\<open>sys.maxint\<close> as the score (and no predicate). Whenever it returns, the
  score is the sentinel minus the fixed weight of each compiled predicate, divided (integer
  division) by the number of predicates plus one; the weights subtracted and the number of
  predicates are those of the options supplied.
\<close>

theorem make_predicates_score:
  "make_predicates env False None None None None None None = Inr (maxint env, []) \<and>
   (make_predicates env xhr request_method path_info request_param header accept containment
      = Inr (score, predicates) \<longrightarrow>
    score = (maxint env - total_weight predicates) div (int (length predicates) + 1) \<and>
    total_weight predicates =
      (if xhr then 10 else 0) + (if request_method = None then 0 else 20) +
      (if path_info = None then 0 else 30) + (if request_param = None then 0 else 40) +
      (if header = None then 0 else 50) + (if accept = None then 0 else 60) +
      (if containment = None then 0 else 70) \<and>
    int (length predicates) =
      (if xhr then 1 else 0) + (if request_method = None then 0 else 1) +
      (if path_info = None then 0 else 1) + (if request_param = None then 0 else 1) +
      (if header = None then 0 else 1) + (if accept = None then 0 else 1) +
      (if containment = None then 0 else 1))"
proof (intro conjI impI)
  show "make_predicates env False None None None None None None = Inr (maxint env, [])"
    by (simp add: make_predicates_eq compiled_def total_weight_def)
next
  assume a: "make_predicates env xhr request_method path_info request_param header accept containment
      = Inr (score, predicates)"
  show "score = (maxint env - total_weight predicates) div (int (length predicates) + 1)"
    using make_predicates_Inr(2)[OF a] .
  show "total_weight predicates =
      (if xhr then 10 else 0) + (if request_method = None then 0 else 20) +
      (if path_info = None then 0 else 30) + (if request_param = None then 0 else 40) +
      (if header = None then 0 else 50) + (if accept = None then 0 else 60) +
      (if containment = None then 0 else 70)"
    unfolding make_predicates_Inr(1)[OF a] by (rule total_weight_compiled)
  show "int (length predicates) =
      (if xhr then 1 else 0) + (if request_method = None then 0 else 1) +
      (if path_info = None then 0 else 1) + (if request_param = None then 0 else 1) +
      (if header = None then 0 else 1) + (if accept = None then 0 else 1) +
      (if containment = None then 0 else 1)"
    unfolding make_predicates_Inr(1)[OF a] length_compiled by simp
qed

theorem make_predicates_score_witness:
  "make_predicates ex_env True (Some ''GET'') None None None None None
     = Inr (3074457345618258592, [xhr_predicate, request_method_predicate ''GET'']) \<and>
   (3074457345618258592 :: int)
     = (maxint ex_env - total_weight [xhr_predicate, request_method_predicate ''GET''])
         div (int (length [xhr_predicate, request_method_predicate ''GET'']) + 1)"
  using make_predicates_score [of ex_env True "Some ''GET''" None None None None None
      3074457345618258592 "[xhr_predicate, request_method_predicate ''GET'']"]
  by (simp add: make_predicates_def ex_env_def)

text \<open>
  Claim C2. Of two configurations that \<^verbatim>\<open>_make_predicates\<close> accepts, the one that yields
  strictly more predicates gets the strictly lower score; and of two that yield the same
  nonzero number of predicates, the one whose predicates weigh more in total gets the
  strictly lower score. \<^verbatim>\<open>sys.maxint\<close> is at least \<open>2\<^sup>3\<^sup>1 - 1\<close>, as on every
  platform of Python 2.
\<close>

theorem make_predicates_order:
  assumes M: "2147483647 \<le> maxint env"
    and c1: "make_predicates env xhr1 request_method1 path_info1 request_param1 header1 accept1
               containment1 = Inr (score1, predicates1)"
    and c2: "make_predicates env xhr2 request_method2 path_info2 request_param2 header2 accept2
               containment2 = Inr (score2, predicates2)"
  shows "(length predicates2 < length predicates1 \<longrightarrow> score1 < score2) \<and>
         (length predicates1 = length predicates2 \<and> predicates1 \<noteq> [] \<and>
          total_weight predicates2 < total_weight predicates1 \<longrightarrow> score1 < score2)"
proof -
  note p1 = make_predicates_Inr[OF c1] and p2 = make_predicates_Inr[OF c2]
  have b1: "length predicates1 \<le> 7" "0 \<le> total_weight predicates1"
    "10 dvd total_weight predicates1"
    unfolding p1(1) by (rule compiled_bounds)+
  have b2: "total_weight predicates2 \<le> 280" "10 dvd total_weight predicates2"
    unfolding p2(1) by (rule compiled_bounds)+
  have more: "score1 < score2" if "length predicates2 < length predicates1"
    unfolding p1(2) p2(2) using M b1(2) b2(1) that b1(1) by (rule score_more)
  have heavier: "score1 < score2"
    if "length predicates1 = length predicates2"
      and "total_weight predicates2 < total_weight predicates1"
  proof -
    have "(maxint env - total_weight predicates1) div (int (length predicates1) + 1)
            < (maxint env - total_weight predicates2) div (int (length predicates1) + 1)"
      using b1(3) b2(2) that(2) b1(1) by (rule score_heavier)
    then show ?thesis unfolding p1(2) p2(2) that(1) .
  qed
  show ?thesis using more heavier by blast
qed

theorem make_predicates_order_witness:
  "(2147483647 \<le> maxint ex_env \<and>
    make_predicates ex_env True (Some ''GET'') None None None None None
      = Inr (3074457345618258592, [xhr_predicate, request_method_predicate ''GET'']) \<and>
    make_predicates ex_env False None None None None None (Some (Class ''Folder''))
      = Inr (4611686018427387868, [containment_predicate (Class ''Folder'')]) \<and>
    length [containment_predicate (Class ''Folder'')]
      < length [xhr_predicate, request_method_predicate ''GET''] \<and>
    (3074457345618258592 :: int) < 4611686018427387868) \<and>
   (make_predicates ex_env False (Some ''GET'') None None None None None
      = Inr (4611686018427387893, [request_method_predicate ''GET'']) \<and>
    length [containment_predicate (Class ''Folder'')] = length [request_method_predicate ''GET''] \<and>
    [containment_predicate (Class ''Folder'')] \<noteq> [] \<and>
    total_weight [request_method_predicate ''GET'']
      < total_weight [containment_predicate (Class ''Folder'')] \<and>
    (4611686018427387868 :: int) < 4611686018427387893)"
  using make_predicates_order [of ex_env True "Some ''GET''" None None None None None
      3074457345618258592 "[xhr_predicate, request_method_predicate ''GET'']"
      False None None None None None "Some (Class ''Folder'')"
      4611686018427387868 "[containment_predicate (Class ''Folder'')]"]
    make_predicates_order [of ex_env False None None None None None "Some (Class ''Folder'')"
      4611686018427387868 "[containment_predicate (Class ''Folder'')]"
      False "Some ''GET''" None None None None None
      4611686018427387893 "[request_method_predicate ''GET'']"]
  by (simp add: make_predicates_def ex_env_def total_weight_def)

subsection \<open>The pools of a MultiView\<close>

lemma sorted_map_fst:
  fixes zs :: "('a::linorder \<times> 'b::linorder) list"
  shows "sorted zs \<Longrightarrow> sorted (map fst zs)"
  by (induction zs) (auto simp: less_eq_prod_def)

lemma sorted_pool_sort: "sorted (map fst (pool_sort xs))"
proof -
  have k: "fst \<circ> (\<lambda>(score, view). (score, addr view)) = (fst :: int \<times> 'a view \<Rightarrow> int)"
    by (auto simp: fun_eq_iff)
  have "sorted (map (\<lambda>(score, view). (score, addr view)) (pool_sort xs))"
    unfolding pool_sort_def by (rule sorted_sort_key)
  then have "sorted (map fst (map (\<lambda>(score, view). (score, addr view)) (pool_sort xs)))"
    by (rule sorted_map_fst)
  then show ?thesis
    unfolding map_map k .
qed

lemma mset_pool_sort: "mset (pool_sort xs) = mset xs"
  by (simp add: pool_sort_def)

lemma set_pool_sort: "set (pool_sort xs) = set xs"
  by (simp add: pool_sort_def)

text \<open>
  Claim C6, as stated, fails for a wildcard subtype: \<^verbatim>\<open>'*' in accept\<close> holds for
  \<^verbatim>\<open>text/*\<close>, so the pair goes to the generic pool, no pool is keyed by \<^verbatim>\<open>text/*\<close> and
  the token is not recorded.
\<close>

theorem add_wildcard_subtype_counterexample:
  "mv_media_views (add ex_env (MultiView []) (ex_view 1 ''a'') 5 (Some ''text/*'')) ''text/*'' = None \<and>
   mv_accepts (add ex_env (MultiView []) (ex_view 1 ''a'') 5 (Some ''text/*'')) = [] \<and>
   mv_views (add ex_env (MultiView []) (ex_view 1 ''a'') 5 (Some ''text/*'')) = [(5, ex_view 1 ''a'')]"
  by (simp add: add_def MultiView_def pool_sort_def)

text \<open>
  Claim C6, amended. \<^verbatim>\<open>MultiView.add(view, score, accept)\<close>: if \<open>accept\<close> is \<^verbatim>\<open>None\<close>
  or contains the character \<^verbatim>\<open>*\<close> (the full wildcard and a wildcard subtype alike), the
  pair joins the generic pool, which is then sorted ascending by score, and nothing else
  changes. Otherwise the pair joins the pool keyed by the token, which is then sorted
  ascending by score, the generic pool is unchanged, and the token is added to the known
  accept keys, without duplicates. The iteration order of a Python set is a listing of its
  elements without repetition.
\<close>

theorem add_pools:
  assumes los: "\<And>xs. set (list_of_set env xs) = set xs \<and> distinct (list_of_set env xs)"
  shows "(accept = None \<or> CHR ''*'' \<in> set (the accept) \<longrightarrow>
            mset (mv_views (add env self view score accept))
              = mset (mv_views self) + {#(score, view)#} \<and>
            sorted (map fst (mv_views (add env self view score accept))) \<and>
            mv_media_views (add env self view score accept) = mv_media_views self \<and>
            mv_accepts (add env self view score accept) = mv_accepts self) \<and>
         (accept = Some a \<and> CHR ''*'' \<notin> set a \<longrightarrow>
            (\<exists>sub. mv_media_views (add env self view score accept)
                      = (mv_media_views self)(a \<mapsto> sub) \<and>
                    mset sub
                      = mset (case mv_media_views self a of Some xs \<Rightarrow> xs | None \<Rightarrow> [])
                          + {#(score, view)#} \<and>
                    sorted (map fst sub)) \<and>
            mv_views (add env self view score accept) = mv_views self \<and>
            set (mv_accepts (add env self view score accept)) = insert a (set (mv_accepts self)) \<and>
            distinct (mv_accepts (add env self view score accept)))"
proof (intro conjI impI)
  assume g: "accept = None \<or> CHR ''*'' \<in> set (the accept)"
  then have eq: "add env self view score accept
                   = self\<lparr>mv_views := pool_sort (mv_views self @ [(score, view)])\<rparr>"
    by (simp add: add_def)
  show "mset (mv_views (add env self view score accept)) = mset (mv_views self) + {#(score, view)#}"
    by (simp add: eq mset_pool_sort)
  show "sorted (map fst (mv_views (add env self view score accept)))"
    by (simp add: eq sorted_pool_sort)
  show "mv_media_views (add env self view score accept) = mv_media_views self"
    by (simp add: eq)
  show "mv_accepts (add env self view score accept) = mv_accepts self"
    by (simp add: eq)
next
  assume m: "accept = Some a \<and> CHR ''*'' \<notin> set a"
  let ?old = "case mv_media_views self a of Some xs \<Rightarrow> xs | None \<Rightarrow> []"
  let ?sub = "pool_sort (?old @ [(score, view)])"
  from m have eq: "add env self view score accept
                   = self\<lparr>mv_media_views := (mv_media_views self)(a \<mapsto> ?sub),
                          mv_accepts := list_of_set env (mv_accepts self @ [a])\<rparr>"
    by (simp add: add_def Let_def)
  have "mv_media_views (add env self view score accept) = (mv_media_views self)(a \<mapsto> ?sub) \<and>
        mset ?sub = mset ?old + {#(score, view)#} \<and> sorted (map fst ?sub)"
    by (simp add: eq mset_pool_sort sorted_pool_sort)
  then show "\<exists>sub. mv_media_views (add env self view score accept)
                      = (mv_media_views self)(a \<mapsto> sub) \<and>
                    mset sub = mset ?old + {#(score, view)#} \<and> sorted (map fst sub)"
    by blast
  show "mv_views (add env self view score accept) = mv_views self"
    by (simp add: eq)
  show "set (mv_accepts (add env self view score accept)) = insert a (set (mv_accepts self))"
    using los by (simp add: eq)
  show "distinct (mv_accepts (add env self view score accept))"
    using los by (simp add: eq)
qed

theorem add_pools_witness:
  "(\<forall>xs. set (list_of_set ex_env xs) = set xs \<and> distinct (list_of_set ex_env xs)) \<and>
   (CHR ''*'' \<in> set (the (Some ''text/*'')) \<and>
    sorted (map fst (mv_views (add ex_env ex_multiview (ex_view 4 ''a'') 5 (Some ''text/*''))))) \<and>
   (CHR ''*'' \<notin> set ''text/html'' \<and>
    set (mv_accepts (add ex_env ex_multiview (ex_view 4 ''a'') 5 (Some ''text/html'')))
      = insert ''text/html'' (set (mv_accepts ex_multiview)))"
proof -
  have los: "\<And>xs. set (list_of_set ex_env xs) = set xs \<and> distinct (list_of_set ex_env xs)"
    by (simp add: ex_env_def)
  show ?thesis
    using los add_pools [OF los, of "Some ''text/*''" ex_multiview "ex_view 4 ''a''" 5 "''x''"]
      add_pools [OF los, of "Some ''text/html''" ex_multiview "ex_view 4 ''a''" 5 "''text/html''"]
    by simp
qed

subsection \<open>Selection and invocation in a MultiView\<close>

lemma match_loop_skip:
  assumes "\<forall>(s, v) \<in> set pre. \<exists>p. predicated v = Some p \<and> p context request = Inr False"
  shows "match_loop n context request (pre @ rest) = match_loop n context request rest"
  using assms by (induction pre) auto

lemma match_loop_hit:
  assumes "predicated view = None \<or> (\<exists>p. predicated view = Some p \<and> p context request = Inr True)"
  shows "match_loop n context request ((score, view) # post) = Inr view"
  using assms by auto

lemma ex_get_view_simps:
  "predicated ex_get_view = Some (all_predicates [apply_predicate ex_env (request_method_predicate ''GET'')])"
  "addr ex_get_view = 2"
  by (simp_all add: ex_get_view_def predicate_wrap_def decorate_view_def function_object_def ex_view_def)

lemma ex_multiview_views:
  "get_views ex_multiview request
     = Inr [(4611686018427387893, ex_get_view), (maxint ex_env, ex_view 3 ''any'')]"
  by (simp add: get_views_def ex_multiview_def add_def MultiView_def pool_sort_def
        ex_get_view_simps ex_view_def ex_env_def)

lemma ex_get_only_views:
  "get_views ex_get_only request = Inr [(4611686018427387893, ex_get_view)]"
  by (simp add: get_views_def ex_get_only_def add_def MultiView_def pool_sort_def)

lemma ex_get_view_call:
  "call ex_get_view 0 ex_world
     = (Inl (NotFound ''predicate mismatch for view <function hello>''), ex_world)"
  by (simp add: ex_get_view_def predicate_wrap_def decorate_view_def function_object_def
        predicate_wrapper_def ex_view_def ex_world_def ex_request_def ex_env_def str_opt_def)

lemma call_loop_skip:
  assumes "all_not_found context pre w = Some w1"
  shows "call_loop n context (pre @ rest) w = call_loop n context rest w1"
  using assms
proof (induction pre arbitrary: w)
  case Nil
  then show ?case by simp
next
  case (Cons x pre)
  obtain score view where x: "x = (score, view)" by (cases x)
  obtain r w' where c: "call view context w = (r, w')" by (cases "call view context w")
  from Cons.prems x c obtain m where r: "r = Inl (NotFound m)"
    and rest: "all_not_found context pre w' = Some w1"
    by (auto split: sum.splits exn.splits)
  show ?case
    using Cons.IH [OF rest] by (simp add: x c r)
qed

lemma call_loop_hit:
  assumes "call view context w = (r, w2)" and "\<forall>m. r \<noteq> Inl (NotFound m)"
  shows "call_loop n context ((score, view) # post) w = (r, w2)"
  using assms by (auto split: sum.splits exn.splits)

text \<open>
  Claim C4. \<^verbatim>\<open>MultiView.match\<close> scans the candidates of \<^verbatim>\<open>get_views\<close> in order. When
  every candidate before some view has a predicate check that returns false, and that view
  has no \<^verbatim>\<open>__predicated__\<close> or its check returns true, \<^verbatim>\<open>match\<close> returns that view.
  When the check of every candidate returns false, \<^verbatim>\<open>match\<close> raises \<^verbatim>\<open>NotFound\<close> with the
  name of the MultiView.
\<close>

theorem match_first_accepting:
  assumes gv: "get_views self request = Inr vs"
  shows "(vs = pre @ (score, view) # post \<and>
          (\<forall>(s, v) \<in> set pre. \<exists>p. predicated v = Some p \<and> p context request = Inr False) \<and>
          (predicated view = None \<or>
           (\<exists>p. predicated view = Some p \<and> p context request = Inr True))
          \<longrightarrow> match self context request = Inr view) \<and>
         ((\<forall>(s, v) \<in> set vs. \<exists>p. predicated v = Some p \<and> p context request = Inr False)
          \<longrightarrow> match self context request = Inl (NotFound (mv_name self)))"
proof (intro conjI impI)
  assume a: "vs = pre @ (score, view) # post \<and>
          (\<forall>(s, v) \<in> set pre. \<exists>p. predicated v = Some p \<and> p context request = Inr False) \<and>
          (predicated view = None \<or>
           (\<exists>p. predicated view = Some p \<and> p context request = Inr True))"
  have "match self context request
          = match_loop (mv_name self) context request (pre @ (score, view) # post)"
    using gv a by (simp add: match_def)
  also have "\<dots> = match_loop (mv_name self) context request ((score, view) # post)"
    using a by (intro match_loop_skip) blast
  also have "\<dots> = Inr view"
    using a by (intro match_loop_hit) blast
  finally show "match self context request = Inr view" .
next
  assume a: "\<forall>(s, v) \<in> set vs. \<exists>p. predicated v = Some p \<and> p context request = Inr False"
  have "match self context request = match_loop (mv_name self) context request (vs @ [])"
    using gv by (simp add: match_def)
  also have "\<dots> = match_loop (mv_name self) context request []"
    using a by (rule match_loop_skip)
  finally show "match self context request = Inl (NotFound (mv_name self))" by simp
qed

theorem match_first_accepting_witness:
  "get_views ex_multiview ex_request
     = Inr ([(4611686018427387893, ex_get_view)] @ (maxint ex_env, ex_view 3 ''any'') # []) \<and>
   the (predicated ex_get_view) 0 ex_request = Inr False \<and>
   predicated (ex_view 3 ''any'') = None \<and>
   match ex_multiview 0 ex_request = Inr (ex_view 3 ''any'') \<and>
   get_views ex_get_only ex_request = Inr [(4611686018427387893, ex_get_view)] \<and>
   match ex_get_only 0 ex_request = Inl (NotFound (mv_name ex_get_only))"
proof -
  have r: "the (predicated ex_get_view) 0 ex_request = Inr False"
    by (simp add: ex_get_view_simps ex_request_def)
  have n: "predicated (ex_view 3 ''any'') = None"
    by (simp add: ex_view_def)
  have p: "\<exists>p. predicated ex_get_view = Some p \<and> p 0 ex_request = Inr False"
    using r by (simp add: ex_get_view_simps)
  show ?thesis
    using r n p ex_multiview_views [of ex_request] ex_get_only_views [of ex_request]
      match_first_accepting [OF ex_multiview_views, of "[(4611686018427387893, ex_get_view)]"
        "maxint ex_env" "ex_view 3 ''any''" "[]" 0]
      match_first_accepting [OF ex_get_only_views, of "[]" 0 "ex_view 3 ''any''" "[]" 0]
    by simp
qed


text \<open>
  Claim C5. \<^verbatim>\<open>MultiView.__call__\<close> calls the candidates of \<^verbatim>\<open>get_views\<close> in order. When
  every candidate before some view raises \<^verbatim>\<open>NotFound\<close> in its turn, and that view returns
  or raises anything else, the outcome of that view is the outcome of the call, unchanged.
  When every candidate raises \<^verbatim>\<open>NotFound\<close>, the call raises \<^verbatim>\<open>NotFound\<close> with the name of
  the MultiView.
\<close>

theorem mv_call_falls_through:
  assumes gv: "get_views self (wreq w) = Inr vs"
  shows "(vs = pre @ (score, view) # post \<and> all_not_found context pre w = Some w1 \<and>
          call view context w1 = (r, w2) \<and> (\<forall>m. r \<noteq> Inl (NotFound m))
          \<longrightarrow> mv_call self context w = (r, w2)) \<and>
         (all_not_found context vs w = Some w1
          \<longrightarrow> mv_call self context w = (Inl (NotFound (mv_name self)), w1))"
proof (intro conjI impI)
  assume a: "vs = pre @ (score, view) # post \<and> all_not_found context pre w = Some w1 \<and>
          call view context w1 = (r, w2) \<and> (\<forall>m. r \<noteq> Inl (NotFound m))"
  have "mv_call self context w = call_loop (mv_name self) context (pre @ (score, view) # post) w"
    using gv a by (simp add: mv_call_def)
  also have "\<dots> = call_loop (mv_name self) context ((score, view) # post) w1"
    using a by (intro call_loop_skip) blast
  also have "\<dots> = (r, w2)"
    using a by (intro call_loop_hit) blast+
  finally show "mv_call self context w = (r, w2)" .
next
  assume a: "all_not_found context vs w = Some w1"
  have "mv_call self context w = call_loop (mv_name self) context (vs @ []) w"
    using gv by (simp add: mv_call_def)
  also have "\<dots> = call_loop (mv_name self) context [] w1"
    using a by (rule call_loop_skip)
  finally show "mv_call self context w = (Inl (NotFound (mv_name self)), w1)" by simp
qed

theorem mv_call_falls_through_witness:
  "get_views ex_multiview (wreq ex_world)
     = Inr ([(4611686018427387893, ex_get_view)] @ (maxint ex_env, ex_view 3 ''any'') # []) \<and>
   all_not_found 0 [(4611686018427387893, ex_get_view)] ex_world = Some ex_world \<and>
   call (ex_view 3 ''any'') 0 ex_world = (Inr (Response ''any''), ex_world) \<and>
   mv_call ex_multiview 0 ex_world = (Inr (Response ''any''), ex_world) \<and>
   get_views ex_get_only (wreq ex_world) = Inr [(4611686018427387893, ex_get_view)] \<and>
   mv_call ex_get_only 0 ex_world = (Inl (NotFound (mv_name ex_get_only)), ex_world)"
proof -
  have nf: "all_not_found 0 [(4611686018427387893, ex_get_view)] ex_world = Some ex_world"
    by (simp add: ex_get_view_call)
  have c: "call (ex_view 3 ''any'') 0 ex_world = (Inr (Response ''any''), ex_world)"
    by (simp add: ex_view_def)
  show ?thesis
    using nf c ex_multiview_views [of "wreq ex_world"] ex_get_only_views [of "wreq ex_world"]
      mv_call_falls_through [of ex_multiview ex_world
        "[(4611686018427387893, ex_get_view), (maxint ex_env, ex_view 3 ''any'')]"
        "[(4611686018427387893, ex_get_view)]" "maxint ex_env" "ex_view 3 ''any''" "[]" 0
        ex_world "Inr (Response ''any'')" ex_world]
      mv_call_falls_through [of ex_get_only ex_world "[(4611686018427387893, ex_get_view)]"
        "[]" 0 "ex_view 3 ''any''" "[]" 0 ex_world "Inr (Response ''any'')" ex_world]
    by simp
qed

subsection \<open>The wrapping layers\<close>



lemma call_authdebug_view_off:
  "\<not> debug_authorization settings \<Longrightarrow>
     authdebug_view env a view permission authn_policy authz_policy settings logger = view"
  by (simp add: authdebug_view_def)














text \<open>
  Claim C7 does not hold of the code: \<^verbatim>\<open>_accept_wrap\<close> is the one layer that does not call
  \<^verbatim>\<open>decorate_view\<close>. Whenever a view is derived with an accept tag, the derived view is the
  bare \<^verbatim>\<open>accept_view\<close> closure: it has the tag, and neither the name and docstring of the
  inner view nor its \<^verbatim>\<open>__permitted__\<close>, \<^verbatim>\<open>__call_permissive__\<close> and \<^verbatim>\<open>__predicated__\<close>.
\<close>

theorem accept_view_exposes_no_capability:
  "derive_view env reg al view permission predicates attr renderer_name wrapper_viewname viewname
     (Some acc) = Inr derived \<longrightarrow>
   permitted derived = None \<and> call_permissive derived = None \<and> predicated derived = None \<and>
   vname derived = Some ''accept_view'' \<and> vdoc derived = None \<and> accept_tag derived = Some acc"
  by (auto simp add: derive_view_def accept_wrap_def function_object_def Let_def split: sum.splits)

theorem accept_view_exposes_no_capability_witness:
  "(case derive_view ex_env ex_secure_registry ex_addrs (ex_view 1 ''a'') (Some ''view'')
           [apply_predicate ex_env (request_method_predicate ''GET'')] None None None (Some [])
           (Some ''text/html'') of
      Inl e \<Rightarrow> False
    | Inr derived \<Rightarrow>
        permitted derived = None \<and> call_permissive derived = None \<and> predicated derived = None) \<and>
   (case derive_view ex_env ex_secure_registry ex_addrs (ex_view 1 ''a'') (Some ''view'')
           [apply_predicate ex_env (request_method_predicate ''GET'')] None None None (Some [])
           None of
      Inl e \<Rightarrow> False
    | Inr derived \<Rightarrow>
        permitted derived \<noteq> None \<and> call_permissive derived \<noteq> None \<and> predicated derived \<noteq> None)"
proof -
  have r: "renderer_from_name ex_env ex_secure_registry None = Inr None"
    by (simp add: renderer_from_name_def ex_secure_registry_def ex_registry_def)
  obtain d where d: "derive_view ex_env ex_secure_registry ex_addrs (ex_view 1 ''a'')
        (Some ''view'') [apply_predicate ex_env (request_method_predicate ''GET'')] None None None
        (Some []) (Some ''text/html'') = Inr d"
    using r by (simp add: derive_view_def Let_def)
  have plain: "case derive_view ex_env ex_secure_registry ex_addrs (ex_view 1 ''a'') (Some ''view'')
           [apply_predicate ex_env (request_method_predicate ''GET'')] None None None (Some [])
           None of
      Inl e \<Rightarrow> False
    | Inr derived \<Rightarrow>
        permitted derived \<noteq> None \<and> call_permissive derived \<noteq> None \<and> predicated derived \<noteq> None"
    using r
    by (simp add: derive_view_def Let_def accept_wrap_def predicate_wrap_def authdebug_view_def
          secure_view_def owrap_view_def map_view_def decorate_view_def function_object_def
          debug_authorization_def truthy_def ex_secure_registry_def ex_registry_def ex_addrs_def
          ex_view_def ex_env_def)
  show ?thesis
    using plain d accept_view_exposes_no_capability [of ex_env ex_secure_registry ex_addrs
        "ex_view 1 ''a''" "Some ''view''"
        "[apply_predicate ex_env (request_method_predicate ''GET'')]" None None None "Some []"
        "''text/html''" d]
    by simp
qed

subsection \<open>Registration\<close>

lemma route_request_type_registry:
  "adapters (snd (route_request_type reg request_type route_name)) = adapters reg"
  "utility_authn (snd (route_request_type reg request_type route_name)) = utility_authn reg"
  "utility_authz (snd (route_request_type reg request_type route_name)) = utility_authz reg"
  by (simp_all add: route_request_type_def Let_def split: option.split)

lemma lookup_view_route:
  "lookup_view (snd (route_request_type reg request_type route_name)) key n = lookup_view reg key n"
  unfolding lookup_view_def route_request_type_registry by (rule refl)

lemma add_view_Inr:
  assumes "add_view env reg al args = Inr reg'"
  shows "\<exists>score derived_view key.
           scored_view env reg al args = Inr (score, derived_view) \<and>
           view_key reg args = Inr key \<and>
           reg' = register_view env
                    (snd (route_request_type reg (snd (method_and_type args)) (arg_route_name args)))
                    key (arg_name args) derived_view score (arg_accept args)"
  using assms
  by (auto simp add: add_view_def scored_view_def view_key_def Let_def case_prod_beta
        split: sum.splits if_splits)















lemma scored_view_Inr:
  assumes "scored_view env reg al args = Inr (score, derived_view)"
  shows "\<exists>view predicates.
           view_or_default al args = Inr view \<and>
           make_predicates env (arg_xhr args) (fst (method_and_type args)) (arg_path_info args)
             (arg_request_param args) (arg_header args) (arg_accept args) (arg_containment args)
             = Inr (score, predicates) \<and>
           derive_view env
             (snd (route_request_type reg (snd (method_and_type args)) (arg_route_name args)))
             al view (arg_permission args) (map (apply_predicate env) predicates) (arg_attr args)
             (arg_renderer args) (arg_wrapper args) (Some (arg_name args)) (arg_accept args)
             = Inr derived_view"
  using assms
  by (auto simp add: scored_view_def Let_def case_prod_beta split: sum.splits)



lemma ex_derived_get_simps:
  "addr ex_derived_get = 105" "permitted ex_derived_get = None"
  "call_permissive ex_derived_get = None" "accept_tag ex_derived_get = None"
  "predicated ex_derived_get
     = Some (all_predicates [apply_predicate ex_env (request_method_predicate ''GET'')])"
  by (simp_all add: ex_derived_get_def predicate_wrap_def decorate_view_def function_object_def
        ex_view_def ex_addrs_def)

lemma ex_scored_view_get:
  "scored_view ex_env ex_registry ex_addrs (ex_args_get\<lparr>arg_permission := p\<rparr>)
     = Inr (4611686018427387893, ex_derived_get)"
  by (simp add: scored_view_def view_or_default_def method_and_type_def route_request_type_def
        make_predicates_def derive_view_def renderer_from_name_def map_view_def decorate_view_def
        owrap_view_def secure_view_def authdebug_view_def debug_authorization_def accept_wrap_def
        truthy_def ex_args_get_def ex_registry_def ex_env_def ex_view_def ex_derived_get_def)


lemma ex_lookup_view:
  "lookup_view ex_registry ex_key [] = None"
  "lookup_view ex_registry1 ex_key [] = Some (SingleView ex_derived_get)"
  by (simp_all add: lookup_view_def ex_registry_def ex_registry1_def registerAdapter_def)





lemma pool_of_add_in: "(score, view) \<in> set (pool_of (add env self view score accept) accept)"
  by (simp add: pool_of_def add_def Let_def set_pool_sort)

lemma pool_of_add_sorted: "sorted (map fst (pool_of (add env self view score accept) accept))"
  by (simp add: pool_of_def add_def Let_def sorted_pool_sort)

lemma pool_of_add_mono: "set (pool_of self a) \<subseteq> set (pool_of (add env self view score accept) a)"
  by (auto simp add: pool_of_def add_def Let_def set_pool_sort split: option.splits)

lemma pool_sort_two:
  assumes "s < m"
  shows "pool_sort (pool_sort [(m, v)] @ [(s, d)]) = [(s, d), (m, v)]"
  using assms by (simp add: pool_sort_def less_eq_prod_def)

lemma pool_of_add_two:
  assumes "s < m"
  shows "pool_of (add env (add env (MultiView n) v m a) d s a) a = [(s, d), (m, v)]"
  by (simp add: pool_of_def add_def Let_def MultiView_def pool_sort_two [OF assms])

lemma score_below_maxint:
  assumes M: "2147483647 \<le> maxint env"
    and mp: "make_predicates env xhr request_method path_info request_param header accept
               containment = Inr (score, predicates)"
    and ne: "predicates \<noteq> []"
  shows "score < maxint env"
proof -
  note p = make_predicates_Inr [OF mp]
  have b: "0 \<le> total_weight predicates" "length predicates \<le> 7"
    unfolding p(1) by (rule compiled_bounds)+
  have "(maxint env - total_weight predicates) div (int (length predicates) + 1)
          < (maxint env - 0) div (int 0 + 1)"
    using M b(1) _ _ b(2) by (rule score_more) (use ne in auto)
  then show ?thesis
    unfolding p(2) by simp
qed


lemma register_view_second:
  assumes "lookup_view reg key n = Some old_view"
  shows "adapters (register_view env reg key n derived_view score accept)
           = (adapters reg)
               ((key, IView, n) := None, (key, ISecuredView, n) := None,
                (key, IMultiView, n) \<mapsto>
                  MultiViewObject
                    (add env
                       (case old_view of
                          MultiViewObject m \<Rightarrow> m
                        | SingleView v \<Rightarrow> add env (MultiView n) v (maxint env) (accept_tag v))
                       derived_view score accept))"
  using assms by (simp add: register_view_def registerAdapter_def unregister_def Let_def)

text \<open>
  What \<^verbatim>\<open>add_view\<close> does on a triple that already holds an entry: the slots of the triple,
  the MultiView it builds, and where the old and the new view are in its pools.
\<close>

lemma register_on_occupied_triple:
  assumes av: "add_view env reg al args = Inr reg'"
    and key: "view_key reg args = Inr key"
    and old: "lookup_view reg key (arg_name args) = Some old_view"
    and sv: "scored_view env reg al args = Inr (score, derived_view)"
  shows "\<exists>multiview.
           adapters reg' (key, IMultiView, arg_name args) = Some (MultiViewObject multiview) \<and>
           adapters reg' (key, IView, arg_name args) = None \<and>
           adapters reg' (key, ISecuredView, arg_name args) = None \<and>
           (\<forall>k i n. k \<noteq> key \<or> n \<noteq> arg_name args \<longrightarrow> adapters reg' (k, i, n) = adapters reg (k, i, n)) \<and>
           multiview =
             add env
               (case old_view of
                  MultiViewObject m \<Rightarrow> m
                | SingleView v \<Rightarrow>
                    add env (MultiView (arg_name args)) v (maxint env) (accept_tag v))
               derived_view score (arg_accept args) \<and>
           (score, derived_view) \<in> set (pool_of multiview (arg_accept args)) \<and>
           sorted (map fst (pool_of multiview (arg_accept args))) \<and>
           (case old_view of
              SingleView v \<Rightarrow>
                (maxint env, v) \<in> set (pool_of multiview (accept_tag v)) \<and>
                (accept_tag v = arg_accept args \<and> score < maxint env \<longrightarrow>
                 pool_of multiview (arg_accept args) = [(score, derived_view), (maxint env, v)])
            | MultiViewObject m \<Rightarrow> (\<forall>a. set (pool_of m a) \<subseteq> set (pool_of multiview a))) \<and>
           (\<exists>predicates.
              make_predicates env (arg_xhr args) (fst (method_and_type args)) (arg_path_info args)
                (arg_request_param args) (arg_header args) (arg_accept args)
                (arg_containment args) = Inr (score, predicates) \<and>
              (2147483647 \<le> maxint env \<and> predicates \<noteq> [] \<longrightarrow> score < maxint env))"
proof -
  let ?reg1 = "snd (route_request_type reg (snd (method_and_type args)) (arg_route_name args))"
  let ?n = "arg_name args"
  let ?base = "case old_view of
                 MultiViewObject m \<Rightarrow> m
               | SingleView v \<Rightarrow> add env (MultiView ?n) v (maxint env) (accept_tag v)"
  let ?mv = "add env ?base derived_view score (arg_accept args)"
  have r: "reg' = register_view env ?reg1 key ?n derived_view score (arg_accept args)"
    using add_view_Inr [OF av] key sv by auto
  have l: "lookup_view ?reg1 key ?n = Some old_view"
    unfolding lookup_view_route by (rule old)
  have a: "adapters reg'
             = (adapters reg)
                 ((key, IView, ?n) := None, (key, ISecuredView, ?n) := None,
                  (key, IMultiView, ?n) \<mapsto> MultiViewObject ?mv)"
    unfolding r register_view_second [OF l] route_request_type_registry by (rule refl)
  have slots: "adapters reg' (key, IMultiView, ?n) = Some (MultiViewObject ?mv)"
    "adapters reg' (key, IView, ?n) = None" "adapters reg' (key, ISecuredView, ?n) = None"
    by (simp_all add: a)
  have others: "\<forall>k i n. k \<noteq> key \<or> n \<noteq> ?n \<longrightarrow> adapters reg' (k, i, n) = adapters reg (k, i, n)"
    by (auto simp add: a)
  have new: "(score, derived_view) \<in> set (pool_of ?mv (arg_accept args))"
    by (rule pool_of_add_in)
  have srt: "sorted (map fst (pool_of ?mv (arg_accept args)))"
    by (rule pool_of_add_sorted)
  have kept: "case old_view of
              SingleView v \<Rightarrow>
                (maxint env, v) \<in> set (pool_of ?mv (accept_tag v)) \<and>
                (accept_tag v = arg_accept args \<and> score < maxint env \<longrightarrow>
                 pool_of ?mv (arg_accept args) = [(score, derived_view), (maxint env, v)])
            | MultiViewObject m \<Rightarrow> (\<forall>a. set (pool_of m a) \<subseteq> set (pool_of ?mv a))"
  proof (cases old_view)
    case (SingleView v)
    have "(maxint env, v) \<in> set (pool_of (add env (MultiView ?n) v (maxint env) (accept_tag v))
                                  (accept_tag v))"
      by (rule pool_of_add_in)
    then have "(maxint env, v) \<in> set (pool_of ?mv (accept_tag v))"
      using pool_of_add_mono [of "add env (MultiView ?n) v (maxint env) (accept_tag v)"
          "accept_tag v" env derived_view score "arg_accept args"]
      by (auto simp add: SingleView)
    moreover have "pool_of ?mv (arg_accept args) = [(score, derived_view), (maxint env, v)]"
      if "accept_tag v = arg_accept args" "score < maxint env"
      using pool_of_add_two [OF that(2), of env ?n v "arg_accept args" derived_view]
      by (simp add: SingleView that(1))
    ultimately show ?thesis
      by (simp add: SingleView)
  next
    case (MultiViewObject m)
    then show ?thesis
      by (simp add: pool_of_add_mono)
  qed
  from scored_view_Inr [OF sv] obtain predicates where
    mp: "make_predicates env (arg_xhr args) (fst (method_and_type args)) (arg_path_info args)
           (arg_request_param args) (arg_header args) (arg_accept args) (arg_containment args)
           = Inr (score, predicates)"
    by blast
  have low: "2147483647 \<le> maxint env \<and> predicates \<noteq> [] \<longrightarrow> score < maxint env"
    using score_below_maxint [OF _ mp] by blast
  show ?thesis
    using slots others new srt kept mp low by blast
qed


lemmas ex_unfold =
  add_view_def scored_view_def view_key_def view_or_default_def method_and_type_def
  route_request_type_def make_predicates_def derive_view_def renderer_from_name_def map_view_def
  decorate_view_def owrap_view_def secure_view_def authdebug_view_def debug_authorization_def
  accept_wrap_def predicate_wrap_def function_object_def truthy_def spec_truthy_def
  required_of_def register_view_def lookup_view_def registerAdapter_def unregister_def add_def
  MultiView_def pool_sort_def ex_args_get_def ex_args_a_def ex_args_b_def ex_registry_def
  ex_registry_a_def ex_registry_ab_def ex_registry_b_def ex_registry_ba_def ex_multiview_ab_def
  ex_multiview_ba_def ex_view_a_def ex_view_b_def ex_env_def ex_view_def ex_key_def ex_addrs_def
  ex_addrs2_def

lemma ex_first_a:
  "scored_view ex_env ex_registry ex_addrs ex_args_a = Inr (3074457345618258592, ex_view_a)"
  "add_view ex_env ex_registry ex_addrs ex_args_a = Inr ex_registry_a"
  by (simp_all add: ex_unfold)

lemma ex_second_b:
  "scored_view ex_env ex_registry_a ex_addrs2 ex_args_b = Inr (4611686018427387893, ex_view_b)"
  "add_view ex_env ex_registry_a ex_addrs2 ex_args_b = Inr ex_registry_ab"
  by (simp_all add: ex_unfold)

lemma ex_first_b:
  "add_view ex_env ex_registry ex_addrs2 ex_args_b = Inr ex_registry_b"
  by (simp add: ex_unfold)

lemma ex_second_a:
  "add_view ex_env ex_registry_b ex_addrs ex_args_a = Inr ex_registry_ba"
  by (simp add: ex_unfold)

lemma ex_registry_slots:
  "adapters ex_registry_ab (ex_key, IMultiView, []) = Some (MultiViewObject ex_multiview_ab)"
  "adapters ex_registry_ab (ex_key, IView, []) = None"
  "adapters ex_registry_ab (ex_key, ISecuredView, []) = None"
  "adapters ex_registry_ba (ex_key, IMultiView, []) = Some (MultiViewObject ex_multiview_ba)"
  by (simp_all add: ex_registry_ab_def ex_registry_ba_def ex_registry_a_def ex_registry_b_def
        ex_registry_def registerAdapter_def unregister_def)

lemma ex_view_ab_simps:
  "addr ex_view_a = 105" "addr ex_view_b = 115"
  "accept_tag ex_view_a = None" "accept_tag ex_view_b = None"
  "predicated ex_view_a
     = Some (all_predicates [apply_predicate ex_env xhr_predicate,
                             apply_predicate ex_env (request_method_predicate ''GET'')])"
  "predicated ex_view_b
     = Some (all_predicates [apply_predicate ex_env (request_method_predicate ''GET'')])"
  by (simp_all add: ex_view_a_def ex_view_b_def predicate_wrap_def decorate_view_def
        function_object_def ex_view_def ex_addrs_def ex_addrs2_def)

lemma ex_multiview_pools:
  "mv_views ex_multiview_ab
     = [(4611686018427387893, ex_view_b), (9223372036854775807, ex_view_a)]"
  "mv_accepts ex_multiview_ab = []"
  "mv_views ex_multiview_ba
     = [(3074457345618258592, ex_view_a), (9223372036854775807, ex_view_b)]"
  "mv_accepts ex_multiview_ba = []"
  by (simp_all add: ex_multiview_ab_def ex_multiview_ba_def add_def MultiView_def pool_sort_def
        ex_view_ab_simps ex_env_def)

lemma ex_multiview_match:
  "match ex_multiview_ab 0 ex_xhr_get = Inr ex_view_b"
  "match ex_multiview_ba 0 ex_xhr_get = Inr ex_view_a"
  by (simp_all add: match_def get_views_def ex_multiview_pools ex_view_ab_simps ex_xhr_get_def
        ex_request_def)

text \<open>
  Claim C1 does not hold of the code where it says that the original score of the first
  entry is preserved. \<^verbatim>\<open>add_view\<close> computes the score of a first registration and stores
  the view without it; a second registration seeds the stored view into the new MultiView
  at \<^verbatim>\<open>sys.maxint\<close>. View A (XHR and GET, two predicates) registered first has the score
  \<open>(sys.maxint - 30) div 3\<close>, lower than the score \<open>(sys.maxint - 20) div 2\<close> of view B (GET,
  one predicate) registered second; yet the MultiView holds A at \<^verbatim>\<open>sys.maxint\<close>, after B,
  and \<^verbatim>\<open>match\<close> gives an XHR GET request to B, the view with fewer predicates. Registered in
  the other order, the same two views give the request to A. The rest of the claim holds
  here: the entry becomes one MultiView, registered as \<^verbatim>\<open>IMultiView\<close> with the \<^verbatim>\<open>IView\<close> and
  \<^verbatim>\<open>ISecuredView\<close> slots empty, holding both views.
\<close>

theorem promoted_view_loses_score:
  "scored_view ex_env ex_registry ex_addrs ex_args_a = Inr (3074457345618258592, ex_view_a) \<and>
   add_view ex_env ex_registry ex_addrs ex_args_a = Inr ex_registry_a \<and>
   scored_view ex_env ex_registry_a ex_addrs2 ex_args_b
     = Inr (4611686018427387893, ex_view_b) \<and>
   add_view ex_env ex_registry_a ex_addrs2 ex_args_b = Inr ex_registry_ab \<and>
   adapters ex_registry_ab (ex_key, IMultiView, []) = Some (MultiViewObject ex_multiview_ab) \<and>
   adapters ex_registry_ab (ex_key, IView, []) = None \<and>
   adapters ex_registry_ab (ex_key, ISecuredView, []) = None \<and>
   mv_views ex_multiview_ab
     = [(4611686018427387893, ex_view_b), (9223372036854775807, ex_view_a)] \<and>
   match ex_multiview_ab 0 ex_xhr_get = Inr ex_view_b \<and>
   add_view ex_env ex_registry ex_addrs2 ex_args_b = Inr ex_registry_b \<and>
   add_view ex_env ex_registry_b ex_addrs ex_args_a = Inr ex_registry_ba \<and>
   adapters ex_registry_ba (ex_key, IMultiView, []) = Some (MultiViewObject ex_multiview_ba) \<and>
   mv_views ex_multiview_ba
     = [(3074457345618258592, ex_view_a), (9223372036854775807, ex_view_b)] \<and>
   match ex_multiview_ba 0 ex_xhr_get = Inr ex_view_a"
  by (intro conjI ex_first_a ex_second_b ex_first_b ex_second_a ex_registry_slots
      ex_multiview_pools ex_multiview_match)

end
